theory Spec2Isabelle
  imports Complex_Main "HOL-Library.Log_Nat"
begin

text \<open>
  A model of \<^verbatim>\<open>twin.js\<close>, the script of the Financial Twin page: it reads the form,
  posts the payload to \<^verbatim>\<open>/simulate\<close> and renders the projection that comes back. The
  page is a record that each function takes and returns; what the network answers is an
  argument of the run; a JavaScript exception is a value returned beside the page.
\<close>

section \<open>JavaScript numbers\<close>

text \<open>
  A JavaScript number is a finite value, \<open>NaN\<close>, or one of the two infinities. A finite
  value is carried as the rational it stands for; the sign of zero is not modelled. The
  special values follow IEEE 754. The subtraction of line 80 rounds its exact result to
  binary64, since the digits the page shows depend on that rounding. The divisions of
  lines 40 and 41 and \<^verbatim>\<open>parseFloat\<close> give the exact value, of which the number the
  script computes is the rounding.
\<close>

datatype jsnum = Fin rat | NaN | PosInf | NegInf

text \<open>
  Rounding to binary64, to nearest with ties to even. The binade of a positive rational
  \<open>a\<close> is the \<open>e\<close> with \<open>2\<^sup>e \<le> a < 2\<^sup>e\<^sup>+\<^sup>1\<close>, found from the bit lengths of numerator and
  denominator; below the normal range the exponent stays at -1022 (subnormal numbers).
  The significand has 53 bits, so the spacing of the values in the binade is
  \<open>2\<^sup>e\<^sup>-\<^sup>5\<^sup>2\<close>. A result that reaches \<open>2\<^sup>1\<^sup>0\<^sup>2\<^sup>4\<close> is an infinity.
\<close>

definition floor_log2 :: "rat \<Rightarrow> int" where
  "floor_log2 a =
     (let (p, q) = quotient_of a; e = bitlen p - bitlen q
      in if 2 powi e \<le> a then e else e - 1)"

definition round_half_even :: "rat \<Rightarrow> int" where
  "round_half_even r =
     (let f = \<lfloor>r\<rfloor>
      in if r - of_int f < 1 / 2 then f
         else if 1 / 2 < r - of_int f then f + 1
         else if even f then f else f + 1)"

definition least_subnormal :: rat where
  "least_subnormal = 2 powi (- 1074)"

definition overflow_bound :: rat where
  "overflow_bound = 2 ^ 1024"

definition round64 :: "rat \<Rightarrow> jsnum" where
  "round64 x =
     (if x = 0 then Fin 0
      else
        let a = \<bar>x\<bar>;
            e = max (floor_log2 a) (- 1022);
            q = 2 powi (e - 52);
            r = of_int (round_half_even (a / q)) * q
        in if overflow_bound \<le> r then (if 0 < x then PosInf else NegInf)
           else Fin (if 0 < x then r else - r))"

text \<open>The rationals that are binary64 values: rounding leaves them as they are.\<close>

definition binary64 :: "rat \<Rightarrow> bool" where
  "binary64 x = (round64 x = Fin x)"

text \<open>The operator \<^verbatim>\<open>a / b\<close>.\<close>

fun jdiv :: "jsnum \<Rightarrow> jsnum \<Rightarrow> jsnum" where
  "jdiv NaN _ = NaN"
| "jdiv _ NaN = NaN"
| "jdiv (Fin x) (Fin y) =
     (if y = 0 then (if x = 0 then NaN else if 0 < x then PosInf else NegInf)
      else Fin (x / y))"
| "jdiv (Fin x) PosInf = Fin 0"
| "jdiv (Fin x) NegInf = Fin 0"
| "jdiv PosInf (Fin y) = (if 0 \<le> y then PosInf else NegInf)"
| "jdiv NegInf (Fin y) = (if 0 \<le> y then NegInf else PosInf)"
| "jdiv PosInf PosInf = NaN"
| "jdiv PosInf NegInf = NaN"
| "jdiv NegInf PosInf = NaN"
| "jdiv NegInf NegInf = NaN"

text \<open>
  The operator \<^verbatim>\<open>a - b\<close> on numbers: the exact difference of two finite values,
  rounded to binary64.
\<close>

fun jsub :: "jsnum \<Rightarrow> jsnum \<Rightarrow> jsnum" where
  "jsub NaN _ = NaN"
| "jsub _ NaN = NaN"
| "jsub (Fin x) (Fin y) = round64 (x - y)"
| "jsub (Fin x) PosInf = NegInf"
| "jsub (Fin x) NegInf = PosInf"
| "jsub PosInf (Fin y) = PosInf"
| "jsub NegInf (Fin y) = NegInf"
| "jsub PosInf PosInf = NaN"
| "jsub PosInf NegInf = PosInf"
| "jsub NegInf PosInf = NegInf"
| "jsub NegInf NegInf = NaN"

text \<open>\<^verbatim>\<open>Math.abs(x)\<close>.\<close>

fun Math_abs :: "jsnum \<Rightarrow> jsnum" where
  "Math_abs (Fin x) = Fin \<bar>x\<bar>"
| "Math_abs NaN = NaN"
| "Math_abs PosInf = PosInf"
| "Math_abs NegInf = PosInf"

text \<open>The comparison \<^verbatim>\<open>a >= b\<close> on numbers: false as soon as one side is \<open>NaN\<close>.\<close>

fun jge :: "jsnum \<Rightarrow> jsnum \<Rightarrow> bool" where
  "jge NaN _ = False"
| "jge _ NaN = False"
| "jge (Fin x) (Fin y) = (y \<le> x)"
| "jge PosInf _ = True"
| "jge _ NegInf = True"
| "jge (Fin x) PosInf = False"
| "jge NegInf (Fin y) = False"
| "jge NegInf PosInf = False"

section \<open>Decimal digits\<close>

definition isDigit :: "char \<Rightarrow> bool" where
  "isDigit c = (48 \<le> (of_char c :: nat) \<and> (of_char c :: nat) \<le> 57)"

definition digitValue :: "char \<Rightarrow> nat" where
  "digitValue c = (of_char c :: nat) - 48"

text \<open>The value of a string of decimal digits, most significant digit first.\<close>

definition decimalValue :: "string \<Rightarrow> nat" where
  "decimalValue ds = foldl (\<lambda>a c. 10 * a + digitValue c) 0 ds"

definition digitChar :: "nat \<Rightarrow> char" where
  "digitChar d = ''0123456789'' ! d"

text \<open>The decimal digits of a natural number, without leading zeros.\<close>

fun digits :: "nat \<Rightarrow> string" where
  "digits n = (if n < 10 then [digitChar n] else digits (n div 10) @ [digitChar (n mod 10)])"

section \<open>\<^verbatim>\<open>parseFloat\<close>\<close>

text \<open>
  \<^verbatim>\<open>parseFloat\<close> skips leading white space and converts the longest prefix of the rest
  that is a decimal literal: an optional sign, then \<^verbatim>\<open>Infinity\<close> or digits with an
  optional fraction and an optional exponent. When no prefix is one, the result is
  \<open>NaN\<close>. Only the white space characters of ASCII are recognised here.
\<close>

definition isWhiteSpace :: "char \<Rightarrow> bool" where
  "isWhiteSpace c = (c \<in> set [CHR 0x09, CHR 0x0A, CHR 0x0B, CHR 0x0C, CHR 0x0D, CHR 0x20])"

text \<open>
  The exponent part at the head of the rest of the string: \<^verbatim>\<open>e\<close> or \<^verbatim>\<open>E\<close>, an optional
  sign and at least one digit. Anything else is no exponent part, and the literal ends
  before it.
\<close>

definition exponentPart :: "string \<Rightarrow> int" where
  "exponentPart s =
     (case s of
        [] \<Rightarrow> 0
      | c # r \<Rightarrow>
          if c = CHR ''e'' \<or> c = CHR ''E'' then
            (case r of
               [] \<Rightarrow> 0
             | d # r' \<Rightarrow>
                 if d = CHR ''-'' then
                   (if takeWhile isDigit r' = [] then 0
                    else - int (decimalValue (takeWhile isDigit r')))
                 else if d = CHR ''+'' then int (decimalValue (takeWhile isDigit r'))
                 else int (decimalValue (takeWhile isDigit r)))
          else 0)"

definition scale10 :: "rat \<Rightarrow> int \<Rightarrow> rat" where
  "scale10 m e = (if 0 \<le> e then m * 10 ^ nat e else m / 10 ^ nat (- e))"

definition parseFloat :: "string \<Rightarrow> jsnum" where
  "parseFloat s =
     (let s1 = dropWhile isWhiteSpace s;
          neg = (s1 \<noteq> [] \<and> hd s1 = CHR ''-'');
          s2 = (if s1 \<noteq> [] \<and> (hd s1 = CHR ''-'' \<or> hd s1 = CHR ''+'') then tl s1 else s1)
      in if take 8 s2 = ''Infinity'' then (if neg then NegInf else PosInf)
         else
           let ip = takeWhile isDigit s2;
               r1 = dropWhile isDigit s2;
               dot = (r1 \<noteq> [] \<and> hd r1 = CHR ''.'');
               fp = (if dot then takeWhile isDigit (tl r1) else []);
               r2 = (if dot then dropWhile isDigit (tl r1) else r1)
           in if ip = [] \<and> fp = [] then NaN
              else
                let m = of_nat (decimalValue (ip @ fp)) / 10 ^ length fp
                in Fin (scale10 (if neg then - m else m) (exponentPart r2)))"

section \<open>The currency formatter\<close>

text \<open>
  \<^verbatim>\<open>formatter\<close> is an \<^verbatim>\<open>Intl.NumberFormat\<close> for \<^verbatim>\<open>en-US\<close>, US dollars, with no
  fraction digits: the value is rounded to an integer (a tie goes away from zero), its
  digits are grouped in threes by commas, behind a dollar sign, and a negative value has a
  minus sign in front.
\<close>

fun group3 :: "string \<Rightarrow> string" where
  "group3 ds =
     (if length ds \<le> 3 then ds
      else group3 (take (length ds - 3) ds) @ CHR '','' # drop (length ds - 3) ds)"

text \<open>The infinity sign U+221E, in UTF-8.\<close>

definition infinity_sign :: string where
  "infinity_sign = [CHR 0xE2, CHR 0x88, CHR 0x9E]"

fun formatter_format :: "jsnum \<Rightarrow> string" where
  "formatter_format NaN = ''$NaN''"
| "formatter_format PosInf = ''$'' @ infinity_sign"
| "formatter_format NegInf = ''-$'' @ infinity_sign"
| "formatter_format (Fin x) =
     (if x < 0 then ''-'' else []) @ ''$'' @ group3 (digits (nat \<lfloor>\<bar>x\<bar> + 1 / 2\<rfloor>))"

section \<open>The decoded response\<close>

text \<open>
  \<^verbatim>\<open>data\<close> is the object \<^verbatim>\<open>response.json()\<close> resolves to. The code reads the four runs
  \<^verbatim>\<open>base\<close>, \<^verbatim>\<open>best\<close>, \<^verbatim>\<open>worst\<close>, \<^verbatim>\<open>scenario\<close> and, in a run, the fields below. Any of
  them may be missing from the body, in which case reading it yields \<^verbatim>\<open>undefined\<close>:
  that is \<open>None\<close> here. A field that is present holds a value of its expected type, and
  \<^verbatim>\<open>goal_1_month\<close> may also be \<^verbatim>\<open>null\<close>. A number is the finite binary64 value the
  decoder has made of the literal; where a statement depends on that, it says so
  (\<open>binary64\<close>).
\<close>

datatype goal_value = Undefined | Null | Month int

record run =
  final_net_worth :: "rat option"
  history :: "rat list option"
  risks :: "string list option"
  insights :: "string list option"
  goal_1_month :: goal_value

record response_data =
  base :: "run option"
  best :: "run option"
  worst :: "run option"
  scenario :: "run option"

text \<open>Conversion of a numeric field to a number: \<^verbatim>\<open>undefined\<close> becomes \<open>NaN\<close>.\<close>

fun ToNumber :: "rat option \<Rightarrow> jsnum" where
  "ToNumber None = NaN"
| "ToNumber (Some x) = Fin x"

text \<open>
  Conversion to a string inside the template literal of \<^verbatim>\<open>goalTime\<close>. An integer is
  written in decimal (the exponent notation of magnitudes from \<open>10\<^sup>2\<^sup>1\<close> on is not
  modelled).
\<close>

fun ToString :: "goal_value \<Rightarrow> string" where
  "ToString Undefined = ''undefined''"
| "ToString Null = ''null''"
| "ToString (Month n) = (if n < 0 then ''-'' @ digits (nat (- n)) else digits (nat n))"

section \<open>The page\<close>

datatype js_error = TypeError string | SyntaxError | Error string

record button =
  disabled :: bool
  innerHTML :: string

text \<open>
  An element whose text, class or colour the script sets: the \<^verbatim>\<open>p\<close> elements appended
  to the two list containers and the scenario-impact element (\<open>color\<close> is
  \<^verbatim>\<open>style.color\<close>).
\<close>

record element =
  textContent :: string
  className :: string
  color :: string

record dataset =
  label :: string
  data :: "rat list option"
  borderColor :: string
  backgroundColor :: string
  borderWidth :: nat
  tension :: rat
  pointRadius :: nat
  pointHoverRadius :: nat

text \<open>
  \<^verbatim>\<open>chartData\<close>. The rest of \<^verbatim>\<open>config\<close> (the chart type and the display options) is
  the same constant for every chart and is left out.
\<close>

record chart_data =
  labels :: "nat list"
  datasets :: "dataset list"

text \<open>A chart instance made by \<^verbatim>\<open>new Chart\<close>; \<^verbatim>\<open>destroy()\<close> sets the flag.\<close>

record chart =
  config :: chart_data
  destroyed :: bool

datatype json = JNull | JNumber rat | JString string | JObject "(string \<times> json) list"

record request =
  url :: string
  http_method :: string
  headers :: "(string \<times> string) list"
  body :: json

text \<open>
  Everything the script reads and writes: the values of the form controls (by element
  id), the submit button, the text of the elements \<^verbatim>\<open>baseNetWorth\<close> and \<^verbatim>\<open>goalTime\<close>,
  the scenario-impact element, the children of the two list containers, the global
  \<^verbatim>\<open>projectionChart\<close> (\<open>None\<close> is \<^verbatim>\<open>null\<close>, \<open>Some i\<close> the \<open>i\<close>-th chart ever
  constructed), every chart instance constructed so far, and the calls made to
  \<^verbatim>\<open>console.error\<close>, \<^verbatim>\<open>alert\<close> and \<^verbatim>\<open>fetch\<close>, oldest first. Every element the script
  looks up by id exists.
\<close>

record world =
  input_value :: "string \<Rightarrow> string"
  submitBtn :: button
  baseNetWorth :: string
  goalTime :: string
  impactElement :: element
  riskAlerts :: "element list"
  keyInsights :: "element list"
  projectionChart :: "nat option"
  charts :: "chart list"
  console_error :: "js_error list"
  alert :: "string list"
  fetch :: "request list"

section \<open>Building and sending the payload\<close>

text \<open>A value of the payload object: a number or a string.\<close>

datatype pvalue = PNum jsnum | PStr string

text \<open>
  Lines 23 to 45: the form controls are read, the numeric ones through
  \<^verbatim>\<open>parseFloat\<close>, and the object literal \<^verbatim>\<open>payload\<close> is built, its keys in the order
  of the source.
\<close>

definition payload :: "world \<Rightarrow> (string \<times> pvalue) list" where
  "payload w =
     (let monthlyIncome = parseFloat (input_value w ''monthlyIncome'');
          monthlyExpenses = parseFloat (input_value w ''monthlyExpenses'');
          currentSavings = parseFloat (input_value w ''currentSavings'');
          currentInvestments = parseFloat (input_value w ''currentInvestments'');
          goalCost = parseFloat (input_value w ''goalCost'');
          investmentGrowth = parseFloat (input_value w ''investmentGrowth'');
          inflationRate = parseFloat (input_value w ''inflationRate'');
          savingsRate = parseFloat (input_value w ''savingsRate'');
          riskTolerance = input_value w ''riskTolerance'';
          scenarioChoice = input_value w ''scenario''
      in [(''monthly_income'', PNum monthlyIncome),
          (''monthly_expenses'', PNum monthlyExpenses),
          (''current_savings'', PNum currentSavings),
          (''current_investments'', PNum currentInvestments),
          (''goal_cost'', PNum goalCost),
          (''investment_growth_rate'', PNum (jdiv (jdiv investmentGrowth (Fin 100)) (Fin 12))),
          (''inflation_rate'', PNum (jdiv (jdiv inflationRate (Fin 100)) (Fin 12))),
          (''monthly_savings_rate'', PNum savingsRate),
          (''risk_tolerance'', PStr riskTolerance),
          (''scenario'', PStr scenarioChoice)])"

text \<open>
  \<^verbatim>\<open>JSON.stringify\<close> of the payload, the text represented by its syntax tree. A number
  that is not finite is written \<^verbatim>\<open>null\<close>.
\<close>

fun json_of :: "pvalue \<Rightarrow> json" where
  "json_of (PNum (Fin x)) = JNumber x"
| "json_of (PNum NaN) = JNull"
| "json_of (PNum PosInf) = JNull"
| "json_of (PNum NegInf) = JNull"
| "json_of (PStr s) = JString s"

definition JSON_stringify :: "(string \<times> pvalue) list \<Rightarrow> json" where
  "JSON_stringify p = JObject (map (\<lambda>(k, v). (k, json_of v)) p)"

text \<open>The argument of the one call of \<^verbatim>\<open>fetch\<close>, lines 48 to 54.\<close>

definition simulate_request :: "(string \<times> pvalue) list \<Rightarrow> request" where
  "simulate_request p =
     \<lparr>url = ''/simulate'', http_method = ''POST'',
      headers = [(''Content-Type'', ''application/json'')],
      body = JSON_stringify p\<rparr>"

section \<open>\<^verbatim>\<open>updateChart\<close>\<close>

text \<open>\<^verbatim>\<open>Array.from({ length: 120 }, (_, i) => i + 1)\<close>.\<close>

definition months :: "nat list" where
  "months = map (\<lambda>i. i + 1) [0..<120]"

text \<open>
  Lines 133 to 177. Reading \<^verbatim>\<open>history\<close> of a run that is missing throws a
  \<^verbatim>\<open>TypeError\<close>; a missing \<^verbatim>\<open>history\<close> of a run that is there is \<^verbatim>\<open>undefined\<close> data.
\<close>

definition chartData :: "response_data \<Rightarrow> js_error + chart_data" where
  "chartData d =
     (case base d of
        None \<Rightarrow> Inl (TypeError ''data.base is undefined'')
      | Some b \<Rightarrow>
     (case best d of
        None \<Rightarrow> Inl (TypeError ''data.best is undefined'')
      | Some be \<Rightarrow>
     (case worst d of
        None \<Rightarrow> Inl (TypeError ''data.worst is undefined'')
      | Some wo \<Rightarrow>
     (case scenario d of
        None \<Rightarrow> Inl (TypeError ''data.scenario is undefined'')
      | Some s \<Rightarrow>
          Inr \<lparr>labels = months,
               datasets =
                 [\<lparr>label = ''Base Case'', data = history b,
                   borderColor = ''#007bff'', backgroundColor = ''rgba(0, 123, 255, 0.1)'',
                   borderWidth = 3, tension = 4 / 10, pointRadius = 0, pointHoverRadius = 6\<rparr>,
                  \<lparr>label = ''Best Case'', data = history be,
                   borderColor = ''#10b981'', backgroundColor = ''rgba(16, 185, 129, 0.1)'',
                   borderWidth = 3, tension = 4 / 10, pointRadius = 0, pointHoverRadius = 6\<rparr>,
                  \<lparr>label = ''Worst Case'', data = history wo,
                   borderColor = ''#ef4444'', backgroundColor = ''rgba(239, 68, 68, 0.1)'',
                   borderWidth = 3, tension = 4 / 10, pointRadius = 0, pointHoverRadius = 6\<rparr>,
                  \<lparr>label = ''What-If Scenario'', data = history s,
                   borderColor = ''#f59e0b'', backgroundColor = ''rgba(245, 158, 11, 0.1)'',
                   borderWidth = 3, tension = 4 / 10, pointRadius = 0,
                   pointHoverRadius = 6\<rparr>]\<rparr>))))"

text \<open>\<^verbatim>\<open>destroy()\<close> on the chart instance with handle \<open>c\<close>.\<close>

definition Chart_destroy :: "nat \<Rightarrow> chart list \<Rightarrow> chart list" where
  "Chart_destroy c cs = (if c < length cs then cs[c := (cs ! c)\<lparr>destroyed := True\<rparr>] else cs)"

text \<open>
  Lines 250 to 255: the chart that \<^verbatim>\<open>projectionChart\<close> refers to, if any, is destroyed,
  then a new instance is constructed and becomes \<^verbatim>\<open>projectionChart\<close>. The result is the
  error thrown, if any, and the page as the function leaves it.
\<close>

definition updateChart :: "response_data \<Rightarrow> world \<Rightarrow> js_error option \<times> world" where
  "updateChart d w =
     (case chartData d of
        Inl e \<Rightarrow> (Some e, w)
      | Inr cd \<Rightarrow>
          let w1 = (case projectionChart w of
                      Some c \<Rightarrow> w\<lparr>charts := Chart_destroy c (charts w)\<rparr>
                    | None \<Rightarrow> w)
          in (None, w1\<lparr>charts := charts w1 @ [\<lparr>config = cd, destroyed = False\<rparr>],
                       projectionChart := Some (length (charts w1))\<rparr>))"

section \<open>\<^verbatim>\<open>updateUI\<close>\<close>

text \<open>
  The \<^verbatim>\<open>forEach\<close> loops of lines 96 and 114: for each string a \<^verbatim>\<open>p\<close> element with that
  text and the given class is appended to the children of the container.
\<close>

fun forEach_appendChild :: "string \<Rightarrow> string list \<Rightarrow> element list \<Rightarrow> element list" where
  "forEach_appendChild cls [] children = children"
| "forEach_appendChild cls (x # xs) children =
     forEach_appendChild cls xs (children @ [\<lparr>textContent = x, className = cls, color = []\<rparr>])"

text \<open>
  Lines 72 to 78: the base net worth and the time to the goal. The test
  \<^verbatim>\<open>!== null\<close> lets \<^verbatim>\<open>undefined\<close> through to the template literal.
\<close>

definition show_base :: "run \<Rightarrow> world \<Rightarrow> world" where
  "show_base b w =
     (let w1 = w\<lparr>baseNetWorth := formatter_format (ToNumber (final_net_worth b))\<rparr>
      in if goal_1_month b \<noteq> Null
         then w1\<lparr>goalTime := ToString (goal_1_month b) @ '' months''\<rparr>
         else w1\<lparr>goalTime := ''Not achieved''\<rparr>)"

text \<open>Lines 80 to 89: the scenario impact, its sign and its colour.\<close>

definition show_impact :: "run \<Rightarrow> run \<Rightarrow> world \<Rightarrow> world" where
  "show_impact b s w =
     (let scenarioImpact = jsub (ToNumber (final_net_worth s)) (ToNumber (final_net_worth b));
          w1 = w\<lparr>impactElement := (impactElement w)
                  \<lparr>textContent := formatter_format (Math_abs scenarioImpact)\<rparr>\<rparr>
      in if jge scenarioImpact (Fin 0)
         then w1\<lparr>impactElement := (impactElement w1)
                 \<lparr>color := ''#10b981'',
                  textContent := ''+'' @ textContent (impactElement w1)\<rparr>\<rparr>
         else w1\<lparr>impactElement := (impactElement w1)
                 \<lparr>color := ''#ef4444'',
                  textContent := ''-'' @ textContent (impactElement w1)\<rparr>\<rparr>)"

text \<open>
  Lines 95 to 107 and 113 to 125: what a container holds after the strings of the merged
  list, or the placeholder when there is none, have been appended to its children.
\<close>

definition fill_list :: "string \<Rightarrow> string \<Rightarrow> string list \<Rightarrow> element list \<Rightarrow> element list" where
  "fill_list cls placeholder merged children =
     (if length merged > 0 then forEach_appendChild cls merged children
      else children @
             [\<lparr>textContent = placeholder, className = ''placeholder'', color = []\<rparr>])"

text \<open>
  The statements of \<^verbatim>\<open>updateUI\<close> in their order. A statement that throws ends the
  function there, with what the statements before it have written still in place.
\<close>

definition updateUI :: "response_data \<Rightarrow> world \<Rightarrow> js_error option \<times> world" where
  "updateUI d w =
     (case base d of
        None \<Rightarrow> (Some (TypeError ''data.base is undefined''), w)
      | Some b \<Rightarrow>
     (let w1 = show_base b w
      in
     (case scenario d of
        None \<Rightarrow> (Some (TypeError ''data.scenario is undefined''), w1)
      | Some s \<Rightarrow>
     (let w2 = show_impact b s w1;
          w3 = w2\<lparr>riskAlerts := []\<rparr>
      in
     (case risks b of
        None \<Rightarrow> (Some (TypeError ''data.base.risks is not iterable''), w3)
      | Some rb \<Rightarrow>
     (case risks s of
        None \<Rightarrow> (Some (TypeError ''data.scenario.risks is not iterable''), w3)
      | Some rs \<Rightarrow>
     (let allRisks = rb @ rs;
          w4 = w3\<lparr>riskAlerts :=
                  fill_list ''risk-item'' ''No critical risks detected'' allRisks (riskAlerts w3)\<rparr>;
          w5 = w4\<lparr>keyInsights := []\<rparr>
      in
     (case insights b of
        None \<Rightarrow> (Some (TypeError ''data.base.insights is not iterable''), w5)
      | Some ib \<Rightarrow>
     (case insights s of
        None \<Rightarrow> (Some (TypeError ''data.scenario.insights is not iterable''), w5)
      | Some is \<Rightarrow>
     (let allInsights = ib @ is;
          w6 = w5\<lparr>keyInsights :=
                  fill_list ''insight-item'' ''Run simulation to see insights'' allInsights
                    (keyInsights w5)\<rparr>
      in updateChart d w6))))))))))"

section \<open>\<^verbatim>\<open>runFullSimulation\<close>\<close>

text \<open>
  What the awaited \<^verbatim>\<open>fetch\<close> and \<^verbatim>\<open>response.json()\<close> come back with: the request
  fails at the network, or a response arrives with a status and a body that either does
  not decode or decodes to \<^verbatim>\<open>data\<close>.
\<close>

datatype body_result = Unparseable | Parsed response_data

datatype fetch_result = Rejected | Response nat body_result

text \<open>\<^verbatim>\<open>response.ok\<close>: the status is in the range 200 to 299.\<close>

definition response_ok :: "nat \<Rightarrow> bool" where
  "response_ok status = (200 \<le> status \<and> status \<le> 299)"

definition busy_label :: string where
  \<open>busy_label = ''<ion-icon name="hourglass-outline"></ion-icon> Simulating...''\<close>

definition idle_label :: string where
  \<open>idle_label = ''<ion-icon name="rocket-outline"></ion-icon> Run Simulation''\<close>

text \<open>
  Lines 19 to 54, up to the point where the function waits for the response: the button
  is disabled and relabelled, the payload is built and the request is issued.
\<close>

definition runFullSimulation_send :: "world \<Rightarrow> world" where
  "runFullSimulation_send w =
     (let w1 = w\<lparr>submitBtn := (submitBtn w)\<lparr>disabled := True\<rparr>\<rparr>;
          w2 = w1\<lparr>submitBtn := (submitBtn w1)\<lparr>innerHTML := busy_label\<rparr>\<rparr>
      in w2\<lparr>fetch := fetch w2 @ [simulate_request (payload w2)]\<rparr>)"

text \<open>The body of the \<^verbatim>\<open>try\<close> block once the request has settled, lines 56 to 61.\<close>

definition try_block :: "fetch_result \<Rightarrow> world \<Rightarrow> js_error option \<times> world" where
  "try_block r w =
     (case r of
        Rejected \<Rightarrow> (Some (TypeError ''Failed to fetch''), w)
      | Response status b \<Rightarrow>
          if \<not> response_ok status
          then (Some (Error (''HTTP error! status: '' @ digits status)), w)
          else (case b of
                  Unparseable \<Rightarrow> (Some SyntaxError, w)
                | Parsed d \<Rightarrow> updateUI d w))"

text \<open>The \<^verbatim>\<open>catch\<close> clause, lines 63 and 64.\<close>

definition catch_block :: "js_error \<Rightarrow> world \<Rightarrow> world" where
  "catch_block e w =
     (let w1 = w\<lparr>console_error := console_error w @ [e]\<rparr>
      in w1\<lparr>alert := alert w1 @ [''Simulation failed. Please check console for details.'']\<rparr>)"

text \<open>The \<^verbatim>\<open>finally\<close> clause, lines 66 and 67.\<close>

definition finally_block :: "world \<Rightarrow> world" where
  "finally_block w =
     (let w1 = w\<lparr>submitBtn := (submitBtn w)\<lparr>disabled := False\<rparr>\<rparr>
      in w1\<lparr>submitBtn := (submitBtn w1)\<lparr>innerHTML := idle_label\<rparr>\<rparr>)"

text \<open>Lines 56 to 68: the rest of the function, from the settled request on.\<close>

definition runFullSimulation_settle :: "fetch_result \<Rightarrow> world \<Rightarrow> world" where
  "runFullSimulation_settle r w =
     (case try_block r w of
        (Some e, w1) \<Rightarrow> finally_block (catch_block e w1)
      | (None, w1) \<Rightarrow> finally_block w1)"

text \<open>
  One run of \<^verbatim>\<open>runFullSimulation\<close>; \<open>net\<close> is the remote end, which decides the outcome
  of the request it is sent.
\<close>

definition runFullSimulation :: "(request \<Rightarrow> fetch_result) \<Rightarrow> world \<Rightarrow> world" where
  "runFullSimulation net w =
     (let w1 = runFullSimulation_send w
      in runFullSimulation_settle (net (simulate_request (payload w))) w1)"

section \<open>Notions used in the statements\<close>

text \<open>
  The three outcomes that make a run fail before anything is rendered: the request is
  rejected at the network, the status is not a success status, or the body does not decode.
\<close>

definition simulation_failure :: "fetch_result \<Rightarrow> bool" where
  "simulation_failure r =
     (case r of
        Rejected \<Rightarrow> True
      | Response status b \<Rightarrow>
          \<not> response_ok status \<or> (case b of Unparseable \<Rightarrow> True | Parsed d \<Rightarrow> False))"

text \<open>The button as \<^verbatim>\<open>runFullSimulation\<close> leaves it.\<close>

definition idle_button :: button where
  "idle_button = \<lparr>disabled = False, innerHTML = idle_label\<rparr>"

text \<open>The text of the one notification the script ever shows.\<close>

definition failure_notice :: string where
  "failure_notice = ''Simulation failed. Please check console for details.''"

text \<open>The \<^verbatim>\<open>p\<close> element the loops append for one string.\<close>

definition item :: "string \<Rightarrow> string \<Rightarrow> element" where
  "item cls x = \<lparr>textContent = x, className = cls, color = []\<rparr>"

text \<open>The numeric fields of the payload: the key and the id of the form control it is read from.\<close>

definition numeric_fields :: "(string \<times> string) list" where
  "numeric_fields =
     [(''monthly_income'', ''monthlyIncome''),
      (''monthly_expenses'', ''monthlyExpenses''),
      (''current_savings'', ''currentSavings''),
      (''current_investments'', ''currentInvestments''),
      (''goal_cost'', ''goalCost''),
      (''investment_growth_rate'', ''investmentGrowth''),
      (''inflation_rate'', ''inflationRate''),
      (''monthly_savings_rate'', ''savingsRate'')]"

text \<open>The members of a JSON object.\<close>

fun body_fields :: "json \<Rightarrow> (string \<times> json) list" where
  "body_fields (JObject kvs) = kvs"
| "body_fields _ = []"

text \<open>A response that lacks one of the four runs.\<close>

definition missing_run :: "response_data \<Rightarrow> bool" where
  "missing_run d = (base d = None \<or> best d = None \<or> worst d = None \<or> scenario d = None)"

text \<open>A run that is there but lacks one of its two lists of strings.\<close>

definition lacks_list :: "run option \<Rightarrow> bool" where
  "lacks_list r = (case r of None \<Rightarrow> False | Some x \<Rightarrow> risks x = None \<or> insights x = None)"

text \<open>A response with all four runs.\<close>

definition four_runs :: "response_data \<Rightarrow> bool" where
  "four_runs d = (base d \<noteq> None \<and> best d \<noteq> None \<and> worst d \<noteq> None \<and> scenario d \<noteq> None)"

text \<open>The handles of the chart instances that have not been destroyed.\<close>

definition live_charts :: "world \<Rightarrow> nat list" where
  "live_charts w = filter (\<lambda>c. \<not> destroyed (charts w ! c)) [0..<length (charts w)]"

text \<open>
  The chart instances that are live are exactly the one \<^verbatim>\<open>projectionChart\<close> refers to,
  none when it is \<^verbatim>\<open>null\<close>. This holds when the script is loaded (no chart, \<^verbatim>\<open>null\<close>).
\<close>

definition chart_inv :: "world \<Rightarrow> bool" where
  "chart_inv w = (live_charts w = (case projectionChart w of None \<Rightarrow> [] | Some c \<Rightarrow> [c]))"

text \<open>One call of \<^verbatim>\<open>updateChart\<close> after the other, whatever each call throws.\<close>

fun renders :: "response_data list \<Rightarrow> world \<Rightarrow> world" where
  "renders [] w = w"
| "renders (d # ds) w = renders ds (snd (updateChart d w))"

text \<open>The data of the series of the chart that \<^verbatim>\<open>projectionChart\<close> refers to.\<close>

definition series_data :: "world \<Rightarrow> rat list option list" where
  "series_data w =
     (case projectionChart w of
        None \<Rightarrow> []
      | Some c \<Rightarrow> map data (datasets (config (charts w ! c))))"

section \<open>Example inputs\<close>

text \<open>The form as filled in for the end-to-end scenario, on a page that shows nothing yet.\<close>

definition example_inputs :: "string \<Rightarrow> string" where
  "example_inputs i =
     (if i = ''monthlyIncome'' then ''5000''
      else if i = ''monthlyExpenses'' then ''3000''
      else if i = ''currentSavings'' then ''10000''
      else if i = ''currentInvestments'' then ''20000''
      else if i = ''goalCost'' then ''50000''
      else if i = ''investmentGrowth'' then ''7''
      else if i = ''inflationRate'' then ''3''
      else if i = ''savingsRate'' then ''0.3''
      else if i = ''riskTolerance'' then ''moderate''
      else if i = ''scenario'' then ''job_loss''
      else [])"

definition example_page :: world where
  "example_page =
     \<lparr>input_value = example_inputs,
      submitBtn = \<lparr>disabled = False, innerHTML = idle_label\<rparr>,
      baseNetWorth = [], goalTime = [],
      impactElement = \<lparr>textContent = [], className = [], color = []\<rparr>,
      riskAlerts = [], keyInsights = [],
      projectionChart = None, charts = [],
      console_error = [], alert = [], fetch = []\<rparr>"

text \<open>The same form with a monthly income that is no number.\<close>

definition invalid_page :: world where
  "invalid_page =
     example_page\<lparr>input_value :=
       (\<lambda>i. if i = ''monthlyIncome'' then ''abc'' else example_inputs i)\<rparr>"

text \<open>The same form with a growth rate that is no number.\<close>

definition invalid_rate_page :: world where
  "invalid_rate_page =
     example_page\<lparr>input_value :=
       (\<lambda>i. if i = ''investmentGrowth'' then ''seven'' else example_inputs i)\<rparr>"

definition example_base :: run where
  "example_base =
     \<lparr>final_net_worth = Some 250000, history = Some [30000, 31200, 32450],
      risks = Some [''Low emergency fund''], insights = Some [''Savings rate is healthy''],
      goal_1_month = Month 14\<rparr>"

definition example_scenario :: run where
  "example_scenario =
     \<lparr>final_net_worth = Some (180000 + 1 / 2), history = Some [30000, 27000, 24100],
      risks = Some [''Income gap during job loss'', ''Low emergency fund''],
      insights = Some [], goal_1_month = Null\<rparr>"

text \<open>A response with everything in it.\<close>

definition example_result :: response_data where
  "example_result =
     \<lparr>base = Some example_base,
      best = Some (example_base\<lparr>final_net_worth := Some 300000\<rparr>),
      worst = Some (example_base\<lparr>final_net_worth := Some 150000\<rparr>),
      scenario = Some example_scenario\<rparr>"

text \<open>
  The same response with the final net worths that the literals \<^verbatim>\<open>1000.2\<close> (base) and
  \<^verbatim>\<open>100000.7\<close> (scenario) decode to. Their exact difference lies just below 99000.5; the
  rounded difference is 99000.5.
\<close>

definition rounding_result :: response_data where
  "rounding_result =
     example_result
       \<lparr>base := Some (example_base
          \<lparr>final_net_worth := Some (4398926120406221 / 4398046511104)\<rparr>),
        scenario := Some (example_scenario
          \<lparr>final_net_worth := Some (6871995777233715 / 68719476736)\<rparr>)\<rparr>"

text \<open>The same response without the key \<^verbatim>\<open>goal_1_month\<close> in \<^verbatim>\<open>base\<close>.\<close>

definition result_without_goal :: response_data where
  "result_without_goal =
     example_result\<lparr>base := Some (example_base\<lparr>goal_1_month := Undefined\<rparr>)\<rparr>"

text \<open>The same response without the run \<^verbatim>\<open>scenario\<close>.\<close>

definition result_without_scenario :: response_data where
  "result_without_scenario = example_result\<lparr>scenario := None\<rparr>"

text \<open>The same response without the key \<^verbatim>\<open>final_net_worth\<close> in \<^verbatim>\<open>base\<close>.\<close>

definition result_without_net_worth :: response_data where
  "result_without_net_worth =
     example_result\<lparr>base := Some (example_base\<lparr>final_net_worth := None\<rparr>)\<rparr>"

section \<open>Auxiliary facts\<close>

lemmas parse_defs =
  parseFloat_def isWhiteSpace_def isDigit_def decimalValue_def digitValue_def
  exponentPart_def scale10_def

text \<open>
  The recursive equations of \<open>digits\<close> and \<open>group3\<close> are used in the form of
  two conditional equations each, which rewrite an argument only once it is known on
  which side of the test it falls.
\<close>

declare digits.simps [simp del] group3.simps [simp del]

lemma digits_small: "n < 10 \<Longrightarrow> digits n = [digitChar n]"
  by (simp add: digits.simps)

lemma digits_large: "10 \<le> n \<Longrightarrow> digits n = digits (n div 10) @ [digitChar (n mod 10)]"
  by (simp add: digits.simps)

lemma group3_short: "length ds \<le> 3 \<Longrightarrow> group3 ds = ds"
  by (simp add: group3.simps)

lemma group3_long:
  "3 < length ds \<Longrightarrow>
     group3 ds = group3 (take (length ds - 3) ds) @ CHR '','' # drop (length ds - 3) ds"
  by (simp add: group3.simps)

lemma floor_numeral_div:
  "\<lfloor>(numeral a :: rat) / numeral b\<rfloor> = numeral a div numeral b"
  using floor_divide_of_int_eq [of "numeral a" "numeral b", where ?'a = rat] by simp

lemmas eval_digits =
  digits_small digits_large group3_short group3_long digitChar_def floor_numeral_div

text \<open>
  Rounding to binary64: the binade is the right one, a value that is not negative is
  rounded to one that is not negative, and a negative value that is no smaller in
  magnitude than the least subnormal number is rounded to a negative one. Two binary64
  values that differ are at least that far apart, so their rounded difference has the
  sign of their exact difference.
\<close>

lemma pow2_int: "0 \<le> n \<Longrightarrow> (2::rat) powi n = of_int (2 ^ nat n)"
  by (simp add: power_int_def)

lemma pow2_less_exp: "(2::rat) powi e < 2 powi f \<Longrightarrow> e < f"
proof (rule ccontr)
  assume less: "(2::rat) powi e < 2 powi f" and "\<not> e < f"
  then have "f \<le> e" by simp
  then have "(2::rat) powi f \<le> 2 powi e" by (rule power_int_increasing) simp
  with less show False by simp
qed

lemma bitlen_pow2_bounds:
  assumes "0 < p"
  shows "(2::rat) powi (bitlen p - 1) \<le> of_int p" and "of_int p < (2::rat) powi (bitlen p)"
proof -
  have b: "1 \<le> bitlen p"
    using assms bitlen_eq_zero_iff [of p] bitlen_nonneg [of p] by simp
  from bitlen_bounds [OF assms]
  have "2 ^ nat (bitlen p - 1) \<le> p" and "p < 2 ^ nat (bitlen p)" by simp_all
  then have "(of_int (2 ^ nat (bitlen p - 1)) :: rat) \<le> of_int p"
    and "(of_int p :: rat) < of_int (2 ^ nat (bitlen p))"
    by (simp_all only: of_int_le_iff of_int_less_iff)
  then show "(2::rat) powi (bitlen p - 1) \<le> of_int p" and "of_int p < (2::rat) powi (bitlen p)"
    using b by (simp_all add: pow2_int)
qed

lemma floor_log2_bounds:
  assumes "0 < a"
  shows "2 powi (floor_log2 a) \<le> a" and "a < 2 powi (floor_log2 a + 1)"
proof -
  obtain p q where pq: "quotient_of a = (p, q)" by (cases "quotient_of a")
  then have q: "0 < q" and a: "a = of_int p / of_int q"
    using quotient_of_denom_pos quotient_of_div by blast+
  with assms have p: "0 < p" by (simp add: zero_less_divide_iff)
  define bp bq where "bp = bitlen p" and "bq = bitlen q"
  note pb = bitlen_pow2_bounds [OF p, folded bp_def]
  note qb = bitlen_pow2_bounds [OF q, folded bq_def]
  have qpos: "(0::rat) < of_int q" using q by simp
  have ppos: "(0::rat) < of_int p" using p by simp
  have lo: "(2::rat) powi (bp - bq - 1) \<le> a"
  proof -
    have "(2::rat) powi (bp - bq - 1) = 2 powi ((bp - 1) - bq)"
      by (rule arg_cong [where f = "\<lambda>n. 2 powi n"]) simp
    also have "\<dots> = 2 powi (bp - 1) / 2 powi bq"
      by (rule power_int_diff) simp
    also have "\<dots> \<le> of_int p / 2 powi bq"
      using pb(1) by (simp add: divide_right_mono)
    also have "\<dots> \<le> of_int p / of_int q"
      using qb(2) qpos ppos by (simp add: frac_le)
    finally show ?thesis by (simp add: a)
  qed
  have hi: "a < (2::rat) powi (bp - bq + 1)"
  proof -
    have "a = of_int p / of_int q" by (rule a)
    also have "\<dots> < 2 powi bp / of_int q"
      using pb(2) qpos by (simp add: divide_strict_right_mono)
    also have "\<dots> \<le> 2 powi bp / 2 powi (bq - 1)"
      using qb(1) by (simp add: frac_le)
    also have "\<dots> = 2 powi (bp - (bq - 1))"
      by (rule power_int_diff [symmetric]) simp
    also have "\<dots> = 2 powi (bp - bq + 1)"
      by (rule arg_cong [where f = "\<lambda>n. 2 powi n"]) simp
    finally show ?thesis .
  qed
  have fl: "floor_log2 a = (if 2 powi (bp - bq) \<le> a then bp - bq else bp - bq - 1)"
    by (simp add: floor_log2_def pq bp_def bq_def)
  show "2 powi (floor_log2 a) \<le> a"
    using lo by (simp add: fl)
  show "a < 2 powi (floor_log2 a + 1)"
    using hi by (simp add: fl not_le)
qed

lemma floor_log2_eq:
  assumes "2 powi e \<le> a" and "a < 2 powi (e + 1)"
  shows "floor_log2 a = e"
proof -
  have "(0::rat) < 2 powi e" by simp
  with assms(1) have a: "0 < a" by linarith
  note b = floor_log2_bounds [OF a]
  have "(2::rat) powi e < 2 powi (floor_log2 a + 1)" using assms(1) b(2) by linarith
  then have 1: "e < floor_log2 a + 1" by (rule pow2_less_exp)
  have "(2::rat) powi (floor_log2 a) < 2 powi (e + 1)" using assms(2) b(1) by linarith
  then have 2: "floor_log2 a < e + 1" by (rule pow2_less_exp)
  from 1 2 show ?thesis by simp
qed

lemma round_half_even_ge_floor: "\<lfloor>r\<rfloor> \<le> round_half_even r"
  by (simp add: round_half_even_def Let_def)

lemma round_half_even_nonneg: "0 \<le> r \<Longrightarrow> 0 \<le> round_half_even r"
proof -
  assume "0 \<le> r"
  then have "0 \<le> \<lfloor>r\<rfloor>" by simp
  with round_half_even_ge_floor [of r] show ?thesis by linarith
qed

lemma round_half_even_pos: "1 \<le> r \<Longrightarrow> 1 \<le> round_half_even r"
proof -
  assume "1 \<le> r"
  then have "1 \<le> \<lfloor>r\<rfloor>" by (simp add: le_floor_iff)
  with round_half_even_ge_floor [of r] show ?thesis by linarith
qed

lemma round64_nonneg: "0 \<le> x \<Longrightarrow> jge (round64 x) (Fin 0)"
  by (simp add: round64_def Let_def round_half_even_nonneg)

lemma quantum_le:
  assumes "0 < a" and "least_subnormal \<le> a"
  shows "2 powi (max (floor_log2 a) (- 1022) - 52) \<le> a"
proof (cases "- 1022 \<le> floor_log2 a")
  case True
  have "(2::rat) powi (floor_log2 a - 52) \<le> 2 powi (floor_log2 a)"
    by (rule power_int_increasing) simp_all
  also have "\<dots> \<le> a" by (rule floor_log2_bounds(1) [OF assms(1)])
  finally show ?thesis using True by (simp add: max_def)
next
  case False
  then show ?thesis using assms(2) by (simp add: max_def least_subnormal_def)
qed

lemma round64_negative:
  assumes "x < 0" and "least_subnormal \<le> \<bar>x\<bar>"
  shows "\<not> jge (round64 x) (Fin 0)"
proof -
  define q :: rat where "q = 2 powi (max (floor_log2 \<bar>x\<bar>) (- 1022) - 52)"
  define r :: rat where "r = of_int (round_half_even (\<bar>x\<bar> / q)) * q"
  have q: "0 < q" by (simp add: q_def)
  from assms(1) have a: "0 < \<bar>x\<bar>" by simp
  have "q \<le> \<bar>x\<bar>" unfolding q_def by (rule quantum_le [OF a assms(2)])
  with q have "1 \<le> \<bar>x\<bar> / q" by (simp add: le_divide_eq)
  then have "1 \<le> round_half_even (\<bar>x\<bar> / q)" by (rule round_half_even_pos)
  then have r: "0 < r" using q by (simp add: r_def)
  have "round64 x = (if overflow_bound \<le> r then NegInf else Fin (- r))"
    unfolding r_def q_def round64_def Let_def using assms(1) by simp
  then show ?thesis using r by simp
qed

lemma binary64_multiple:
  assumes "binary64 x"
  shows "\<exists>k::int. x = of_int k * least_subnormal"
proof (cases "x = 0")
  case True
  then have "x = of_int 0 * least_subnormal" by simp
  then show ?thesis by blast
next
  case False
  define e where "e = max (floor_log2 \<bar>x\<bar>) (- 1022)"
  define m where "m = round_half_even (\<bar>x\<bar> / 2 powi (e - 52))"
  have e: "0 \<le> e + 1022" by (simp add: e_def)
  from assms False
  have "x = (if 0 < x then of_int m * 2 powi (e - 52) else - (of_int m * 2 powi (e - 52)))"
    by (auto simp: binary64_def round64_def Let_def e_def m_def split: if_splits)
  then have x: "x = of_int (if 0 < x then m else - m) * 2 powi (e - 52)"
    by (simp split: if_splits)
  have "(2::rat) powi (e - 52) = 2 powi ((e + 1022) + (- 1074))"
    by (rule arg_cong [where f = "\<lambda>n. 2 powi n"]) simp
  also have "\<dots> = 2 powi (e + 1022) * 2 powi (- 1074)"
    by (rule power_int_add) simp
  finally have "(2::rat) powi (e - 52) = of_int (2 ^ nat (e + 1022)) * least_subnormal"
    by (simp only: pow2_int [OF e] least_subnormal_def)
  with x have "x = of_int ((if 0 < x then m else - m) * 2 ^ nat (e + 1022)) * least_subnormal"
    by (simp only: of_int_mult mult.assoc)
  then show ?thesis by blast
qed

lemma multiples_apart:
  fixes c :: rat
  assumes "0 < c" and "k \<noteq> (l::int)"
  shows "c \<le> \<bar>of_int l * c - of_int k * c\<bar>"
proof -
  from assms(2) have "1 \<le> \<bar>l - k\<bar>" by simp
  then have one: "(1::rat) \<le> \<bar>of_int (l - k)\<bar>"
    by (simp only: of_int_abs [symmetric] of_int_1_le_iff)
  have "of_int l * c - of_int k * c = of_int (l - k) * c" by (simp add: algebra_simps)
  then have "\<bar>of_int l * c - of_int k * c\<bar> = \<bar>of_int (l - k)\<bar> * c"
    using assms(1) by (simp only: abs_mult abs_of_pos)
  moreover have "1 * c \<le> \<bar>of_int (l - k)\<bar> * c"
    using one assms(1) by (intro mult_right_mono) simp_all
  ultimately show ?thesis by simp
qed

lemma binary64_diff:
  assumes "binary64 x" and "binary64 y" and "x \<noteq> y"
  shows "least_subnormal \<le> \<bar>y - x\<bar>"
proof -
  from binary64_multiple [OF assms(1)] obtain k where k: "x = of_int k * least_subnormal" by blast
  from binary64_multiple [OF assms(2)] obtain l where l: "y = of_int l * least_subnormal" by blast
  from assms(3) k l have kl: "k \<noteq> l" by auto
  have "(0::rat) < least_subnormal" by (simp add: least_subnormal_def)
  from multiples_apart [OF this kl] show ?thesis by (simp only: k l)
qed

lemma difference_sign:
  assumes "binary64 x" and "binary64 y"
  shows "jge (round64 (y - x)) (Fin 0) \<longleftrightarrow> x \<le> y"
proof (cases "x \<le> y")
  case True
  then show ?thesis using round64_nonneg [of "y - x"] by simp
next
  case False
  then have "y - x < 0" "x \<noteq> y" by simp_all
  with binary64_diff [OF assms] round64_negative [of "y - x"] False show ?thesis by simp
qed

text \<open>Rounding a value whose binade is known, for evaluation.\<close>

lemma round64_eval:
  assumes "x \<noteq> 0" and "2 powi e \<le> \<bar>x\<bar>" and "\<bar>x\<bar> < 2 powi (e + 1)"
  shows "round64 x =
     (let q = 2 powi (max e (- 1022) - 52);
          r = of_int (round_half_even (\<bar>x\<bar> / q)) * q
      in if overflow_bound \<le> r then (if 0 < x then PosInf else NegInf)
         else Fin (if 0 < x then r else - r))"
proof -
  have fl: "floor_log2 \<bar>x\<bar> = e" by (rule floor_log2_eq [OF assms(2,3)])
  have z: "(x = 0) = False" using assms(1) by simp
  show ?thesis by (simp only: round64_def Let_def fl z if_False)
qed

lemmas eval_round64 =
  round_half_even_def overflow_bound_def floor_numeral_div Let_def

lemma binary64_example_base: "binary64 250000"
  by (simp add: binary64_def round64_eval [of _ 17] eval_round64)

lemma binary64_example_scenario: "binary64 (360001 / 2)"
  by (simp add: binary64_def round64_eval [of _ 17] eval_round64)

lemma round64_example_impact: "round64 (- (139999 / 2)) = Fin (- (139999 / 2))"
  by (simp add: round64_eval [of _ 16] eval_round64)

lemma binary64_rounding_base: "binary64 (4398926120406221 / 4398046511104)"
  by (simp add: binary64_def round64_eval [of _ 9] eval_round64)

lemma binary64_rounding_scenario: "binary64 (6871995777233715 / 68719476736)"
  by (simp add: binary64_def round64_eval [of _ 16] eval_round64)

lemma round64_rounding_impact:
  "round64 (6871995777233715 / 68719476736 - 4398926120406221 / 4398046511104) =
     Fin (198001 / 2)"
  by (simp add: round64_eval [of _ 16] eval_round64)

lemma format_rounding_impact: "formatter_format (Fin (198001 / 2)) = ''$99,001''"
  by (simp add: eval_digits)

text \<open>A parsed value that is not finite stays so when divided, and is written \<^verbatim>\<open>null\<close>.\<close>

lemma jdiv_nonfinite:
  "\<forall>x. v \<noteq> Fin x \<Longrightarrow> 0 < c \<Longrightarrow> jdiv v (Fin c) \<noteq> Fin y"
  by (cases v) auto

lemma json_of_nonfinite: "\<forall>x. v \<noteq> Fin x \<Longrightarrow> json_of (PNum v) = JNull"
  by (cases v) auto

lemma rate_nonfinite:
  assumes "\<forall>x. v \<noteq> Fin x"
  shows "json_of (PNum (jdiv (jdiv v (Fin 100)) (Fin 12))) = JNull"
proof -
  have "\<forall>x. jdiv v (Fin 100) \<noteq> Fin x" using jdiv_nonfinite [OF assms, of 100] by simp
  then have "\<forall>x. jdiv (jdiv v (Fin 100)) (Fin 12) \<noteq> Fin x"
    using jdiv_nonfinite [of "jdiv v (Fin 100)" 12] by simp
  then show ?thesis by (rule json_of_nonfinite)
qed

lemma growth_invalid: "parseFloat (input_value invalid_rate_page ''investmentGrowth'') = NaN"
  by (simp add: invalid_rate_page_def example_page_def parse_defs)

lemma format_example_base: "formatter_format (Fin 250000) = ''$250,000''"
  by (simp add: eval_digits)

lemma format_example_impact: "formatter_format (Fin (139999 / 2)) = ''$70,000''"
  by (simp add: eval_digits)

lemma ToString_example: "ToString (Month 14) = ''14''"
  by (simp add: eval_digits)

lemma example_growth: "parseFloat (input_value example_page ''investmentGrowth'') = Fin 7"
  by (simp add: example_page_def example_inputs_def parse_defs)

lemma example_inflation: "parseFloat (input_value example_page ''inflationRate'') = Fin 3"
  by (simp add: example_page_def example_inputs_def parse_defs)

lemma payload_submitBtn: "payload (w\<lparr>submitBtn := b\<rparr>) = payload w"
  by (simp add: payload_def)

lemma send_eq:
  "runFullSimulation_send w =
     w\<lparr>submitBtn := \<lparr>disabled = True, innerHTML = busy_label\<rparr>,
       fetch := fetch w @ [simulate_request (payload w)]\<rparr>"
  by (simp add: runFullSimulation_send_def Let_def payload_submitBtn)

lemma finally_eq: "finally_block w = w\<lparr>submitBtn := idle_button\<rparr>"
  by (simp add: finally_block_def idle_button_def Let_def)

lemma catch_eq:
  "catch_block e w =
     w\<lparr>console_error := console_error w @ [e], alert := alert w @ [failure_notice]\<rparr>"
  by (simp add: catch_block_def failure_notice_def Let_def)

lemma try_failure: "simulation_failure r \<Longrightarrow> \<exists>e. try_block r w = (Some e, w)"
  by (auto simp: simulation_failure_def try_block_def
      split: fetch_result.splits body_result.splits)

text \<open>The loop appends one element for each string, in the order of the list.\<close>

lemma forEach_appendChild_map:
  "forEach_appendChild cls xs children = children @ map (item cls) xs"
  by (induction xs arbitrary: children) (simp_all add: item_def)

lemma fill_list_eq:
  "fill_list cls ph merged [] =
     (if merged = [] then [item ''placeholder'' ph] else map (item cls) merged)"
  by (simp add: fill_list_def forEach_appendChild_map item_def)

text \<open>What each part of \<^verbatim>\<open>updateUI\<close> leaves as it was.\<close>

lemma updateChart_frame:
  "riskAlerts (snd (updateChart d w)) = riskAlerts w"
  "keyInsights (snd (updateChart d w)) = keyInsights w"
  "impactElement (snd (updateChart d w)) = impactElement w"
  "goalTime (snd (updateChart d w)) = goalTime w"
  "baseNetWorth (snd (updateChart d w)) = baseNetWorth w"
  "submitBtn (snd (updateChart d w)) = submitBtn w"
  "console_error (snd (updateChart d w)) = console_error w"
  "alert (snd (updateChart d w)) = alert w"
  "fetch (snd (updateChart d w)) = fetch w"
  "input_value (snd (updateChart d w)) = input_value w"
  by (simp_all add: updateChart_def Let_def split: sum.splits option.splits)

lemma show_base_frame:
  "riskAlerts (show_base b w) = riskAlerts w"
  "keyInsights (show_base b w) = keyInsights w"
  "impactElement (show_base b w) = impactElement w"
  "submitBtn (show_base b w) = submitBtn w"
  "console_error (show_base b w) = console_error w"
  "alert (show_base b w) = alert w"
  "fetch (show_base b w) = fetch w"
  "input_value (show_base b w) = input_value w"
  "charts (show_base b w) = charts w"
  "projectionChart (show_base b w) = projectionChart w"
  by (simp_all add: show_base_def Let_def)

lemma show_impact_frame:
  "riskAlerts (show_impact b s w) = riskAlerts w"
  "keyInsights (show_impact b s w) = keyInsights w"
  "goalTime (show_impact b s w) = goalTime w"
  "baseNetWorth (show_impact b s w) = baseNetWorth w"
  "submitBtn (show_impact b s w) = submitBtn w"
  "console_error (show_impact b s w) = console_error w"
  "alert (show_impact b s w) = alert w"
  "fetch (show_impact b s w) = fetch w"
  "input_value (show_impact b s w) = input_value w"
  "charts (show_impact b s w) = charts w"
  "projectionChart (show_impact b s w) = projectionChart w"
  by (simp_all add: show_impact_def Let_def)

lemmas frame = updateChart_frame show_base_frame show_impact_frame

lemma goalTime_updateUI:
  "base d = Some b \<Longrightarrow> goalTime (snd (updateUI d w)) = goalTime (show_base b w)"
  by (simp add: updateUI_def Let_def frame split: option.splits)

lemma impactElement_updateUI:
  "base d = Some b \<Longrightarrow> scenario d = Some s \<Longrightarrow>
     impactElement (snd (updateUI d w)) = impactElement (show_impact b s (show_base b w))"
  by (simp add: updateUI_def Let_def frame split: option.splits)

text \<open>What \<^verbatim>\<open>updateChart\<close> and \<^verbatim>\<open>updateUI\<close> do when a statement throws.\<close>

lemma length_Chart_destroy: "length (Chart_destroy c cs) = length cs"
  by (simp add: Chart_destroy_def)

lemma chartData_missing: "missing_run d \<Longrightarrow> \<exists>m. chartData d = Inl (TypeError m)"
  by (auto simp: missing_run_def chartData_def split: option.splits)

lemma updateChart_error: "chartData d = Inl e \<Longrightarrow> updateChart d w = (Some e, w)"
  by (simp add: updateChart_def)

lemma updateChart_thrown: "fst (updateChart d w) \<noteq> None \<Longrightarrow> snd (updateChart d w) = w"
  by (simp add: updateChart_def Let_def split: sum.splits)

lemma updateUI_thrown_chart:
  "fst (updateUI d w) \<noteq> None \<Longrightarrow>
     charts (snd (updateUI d w)) = charts w \<and>
     projectionChart (snd (updateUI d w)) = projectionChart w"
  by (auto simp: updateUI_def Let_def frame updateChart_thrown split: option.splits)

lemma updateUI_frame:
  "submitBtn (snd (updateUI d w)) = submitBtn w"
  "console_error (snd (updateUI d w)) = console_error w"
  "alert (snd (updateUI d w)) = alert w"
  "fetch (snd (updateUI d w)) = fetch w"
  "input_value (snd (updateUI d w)) = input_value w"
  by (simp_all add: updateUI_def Let_def frame split: option.splits)

lemma updateUI_missing:
  assumes "missing_run d \<or> lacks_list (base d) \<or> lacks_list (scenario d)"
  shows "\<exists>m. fst (updateUI d w) = Some (TypeError m)"
proof -
  have c: "\<exists>m. fst (updateChart d w') = Some (TypeError m)" if "missing_run d" for w'
    using chartData_missing [OF that] by (auto simp: updateChart_error)
  show ?thesis
  proof (cases "missing_run d")
    case True
    then show ?thesis using c
      by (auto simp: updateUI_def Let_def split: option.splits)
  next
    case False
    then show ?thesis using assms
      by (auto simp: updateUI_def Let_def lacks_list_def missing_run_def split: option.splits)
  qed
qed

lemma updateUI_no_base:
  "base d = None \<Longrightarrow> updateUI d w = (Some (TypeError ''data.base is undefined''), w)"
  by (simp add: updateUI_def)

text \<open>The rest of a run whose response has a success status and a body that decodes.\<close>

lemma settle_parsed:
  assumes "response_ok status"
  shows "runFullSimulation_settle (Response status (Parsed d)) w =
       (case fst (updateUI d w) of
          Some e \<Rightarrow> (snd (updateUI d w))
                      \<lparr>console_error := console_error w @ [e],
                       alert := alert w @ [failure_notice],
                       submitBtn := idle_button\<rparr>
        | None \<Rightarrow> (snd (updateUI d w))\<lparr>submitBtn := idle_button\<rparr>)"
proof (cases "updateUI d w")
  case (Pair e w1)
  then have "console_error w1 = console_error w" "alert w1 = alert w"
    using updateUI_frame(2,3) [of d w] by simp_all
  with Pair assms show ?thesis
    by (simp add: runFullSimulation_settle_def try_block_def finally_eq catch_eq
        split: option.splits)
qed

lemma fetch_try: "fetch (snd (try_block r w)) = fetch w"
  by (simp add: try_block_def updateUI_frame split: fetch_result.splits body_result.splits)

lemma fetch_settle: "fetch (runFullSimulation_settle r w) = fetch w"
proof (cases "try_block r w")
  case (Pair e w1)
  then have "fetch w1 = fetch w"
    using fetch_try [of r w] by simp
  with Pair show ?thesis
    by (simp add: runFullSimulation_settle_def finally_eq catch_eq split: option.splits)
qed

lemma ok_200: "response_ok 200"
  by (simp add: response_ok_def)

text \<open>The two malformed example responses, evaluated.\<close>

lemma show_base_example:
  "show_base example_base w = w\<lparr>baseNetWorth := ''$250,000'', goalTime := ''14 months''\<rparr>"
  by (simp add: show_base_def example_base_def Let_def format_example_base ToString_example
      del: formatter_format.simps ToString.simps)

lemma updateUI_without_scenario:
  "updateUI result_without_scenario w =
     (Some (TypeError ''data.scenario is undefined''),
      w\<lparr>baseNetWorth := ''$250,000'', goalTime := ''14 months''\<rparr>)"
  by (simp add: updateUI_def result_without_scenario_def example_result_def Let_def
      show_base_example)

lemma updateUI_without_net_worth:
  "fst (updateUI result_without_net_worth w) = None \<and>
   baseNetWorth (snd (updateUI result_without_net_worth w)) = ''$NaN'' \<and>
   textContent (impactElement (snd (updateUI result_without_net_worth w))) = ''-$NaN'' \<and>
   projectionChart (snd (updateUI result_without_net_worth w)) = Some (length (charts w))"
  by (simp add: updateUI_def result_without_net_worth_def example_result_def Let_def
      example_base_def example_scenario_def show_base_def show_impact_def
      updateChart_def chartData_def length_Chart_destroy split: option.splits)

text \<open>Live chart instances, and what one call of \<^verbatim>\<open>updateChart\<close> does to them.\<close>

lemma filter_upt_nil: "filter P [0..<n] = [] \<longleftrightarrow> (\<forall>i<n. \<not> P i)"
  by (auto simp: filter_empty_conv)

lemma filter_upt_single:
  assumes "filter P [0..<n] = [c]"
  shows "c < n \<and> P c \<and> (\<forall>i<n. i \<noteq> c \<longrightarrow> \<not> P i)"
proof -
  have s: "set (filter P [0..<n]) = {c}" using assms by simp
  then have "c \<in> set (filter P [0..<n])" by simp
  then have 1: "c < n \<and> P c" by simp
  have "\<forall>i<n. i \<noteq> c \<longrightarrow> \<not> P i"
  proof (intro allI impI)
    fix i assume "i < n" "i \<noteq> c"
    show "\<not> P i"
    proof
      assume "P i"
      with \<open>i < n\<close> have "i \<in> set (filter P [0..<n])" by simp
      with s \<open>i \<noteq> c\<close> show False by simp
    qed
  qed
  with 1 show ?thesis by simp
qed

lemma destroy_step_all_destroyed:
  assumes "chart_inv w"
  shows "\<forall>i < length (charts w).
           destroyed ((case projectionChart w of
                         Some c \<Rightarrow> Chart_destroy c (charts w)
                       | None \<Rightarrow> charts w) ! i)"
proof (cases "projectionChart w")
  case None
  with assms have "filter (\<lambda>c. \<not> destroyed (charts w ! c)) [0..<length (charts w)] = []"
    by (simp add: chart_inv_def live_charts_def)
  then show ?thesis using None by (simp add: filter_upt_nil)
next
  case (Some c)
  with assms have "filter (\<lambda>c. \<not> destroyed (charts w ! c)) [0..<length (charts w)] = [c]"
    by (simp add: chart_inv_def live_charts_def)
  from filter_upt_single [OF this] show ?thesis using Some
    by (auto simp: Chart_destroy_def nth_list_update)
qed

lemma live_append_new:
  assumes "\<forall>i < length cs. destroyed (cs ! i)"
  shows "filter (\<lambda>c. \<not> destroyed ((cs @ [\<lparr>config = cd, destroyed = False\<rparr>]) ! c))
           [0..<length (cs @ [\<lparr>config = cd, destroyed = False\<rparr>])] = [length cs]"
proof -
  have "filter (\<lambda>c. \<not> destroyed ((cs @ [\<lparr>config = cd, destroyed = False\<rparr>]) ! c)) [0..<length cs] = []"
    using assms by (auto simp: filter_empty_conv nth_append)
  then show ?thesis by simp
qed

lemma four_runs_chartData: "four_runs d \<Longrightarrow> \<exists>cd. chartData d = Inr cd"
  by (auto simp: four_runs_def chartData_def split: option.splits)

lemma updateChart_step:
  assumes inv: "chart_inv w" and cd: "chartData d = Inr cd"
  shows "fst (updateChart d w) = None"
    and "live_charts (snd (updateChart d w)) = [length (charts w)]"
    and "projectionChart (snd (updateChart d w)) = Some (length (charts w))"
    and "length (charts (snd (updateChart d w))) = Suc (length (charts w))"
    and "config (charts (snd (updateChart d w)) ! length (charts w)) = cd"
    and "chart_inv (snd (updateChart d w))"
    and "\<forall>c. projectionChart w = Some c \<longrightarrow> destroyed (charts (snd (updateChart d w)) ! c)"
proof -
  let ?cs = "case projectionChart w of Some c \<Rightarrow> Chart_destroy c (charts w) | None \<Rightarrow> charts w"
  have len: "length ?cs = length (charts w)" by (simp add: length_Chart_destroy split: option.splits)
  have all: "\<forall>i < length ?cs. destroyed (?cs ! i)"
    using destroy_step_all_destroyed [OF inv] len by simp
  have w': "snd (updateChart d w) =
              w\<lparr>charts := ?cs @ [\<lparr>config = cd, destroyed = False\<rparr>],
                projectionChart := Some (length (charts w))\<rparr>"
    using cd by (simp add: updateChart_def Let_def length_Chart_destroy split: option.splits)
  show "fst (updateChart d w) = None"
    using cd by (simp add: updateChart_def Let_def)
  show l: "live_charts (snd (updateChart d w)) = [length (charts w)]"
    using live_append_new [OF all, of cd] len by (simp add: w' live_charts_def)
  show p: "projectionChart (snd (updateChart d w)) = Some (length (charts w))"
    by (simp add: w')
  show "length (charts (snd (updateChart d w))) = Suc (length (charts w))"
    using len by (simp add: w')
  show "config (charts (snd (updateChart d w)) ! length (charts w)) = cd"
    using len by (simp add: w' nth_append)
  show "chart_inv (snd (updateChart d w))"
    using l p by (simp add: chart_inv_def)
  show "\<forall>c. projectionChart w = Some c \<longrightarrow> destroyed (charts (snd (updateChart d w)) ! c)"
  proof (intro allI impI)
    fix c assume c: "projectionChart w = Some c"
    with inv have "live_charts w = [c]" by (simp add: chart_inv_def)
    from filter_upt_single [OF this [unfolded live_charts_def]] have "c < length (charts w)" by simp
    with all len c show "destroyed (charts (snd (updateChart d w)) ! c)"
      by (simp add: w' nth_append)
  qed
qed

lemma renders_snoc: "renders (ds @ [d]) w = snd (updateChart d (renders ds w))"
  by (induction ds arbitrary: w) simp_all

lemma renders_inv:
  "chart_inv w \<Longrightarrow> \<forall>d\<in>set ds. four_runs d \<Longrightarrow>
     chart_inv (renders ds w) \<and> length (charts (renders ds w)) = length (charts w) + length ds"
proof (induction ds rule: rev_induct)
  case Nil
  then show ?case by simp
next
  case (snoc d ds)
  then have ih: "chart_inv (renders ds w)"
    "length (charts (renders ds w)) = length (charts w) + length ds" by simp_all
  from snoc.prems obtain cd where cd: "chartData d = Inr cd"
    using four_runs_chartData by auto
  show ?case
    using updateChart_step(4,6) [OF ih(1) cd] ih(2) by (simp add: renders_snoc)
qed

lemma series_after_render:
  assumes "chart_inv w" and "chartData d = Inr cd"
  shows "series_data (snd (updateChart d w)) = map data (datasets cd)"
  using updateChart_step(3,5) [OF assms] by (simp add: series_data_def)

lemma chart_inv_example: "chart_inv example_page"
  by (simp add: chart_inv_def live_charts_def example_page_def)

lemma four_runs_example: "four_runs example_result"
  by (simp add: four_runs_def example_result_def)

lemma months_eq: "months = [1..<121]"
proof -
  have "map (\<lambda>i. i + 1) [0..<120] = map Suc [0..<120]" by simp
  also have "\<dots> = [Suc 0..<Suc 120]" by (rule map_Suc_upt)
  finally show ?thesis by (simp add: months_def)
qed

section \<open>The payload\<close>

text \<open>
  C1. When the growth and inflation inputs parse as numbers \<open>g\<close> and \<open>i\<close>, the payload
  carries \<open>(g / 100) / 12\<close> under \<^verbatim>\<open>investment_growth_rate\<close> and \<open>(i / 100) / 12\<close> under
  \<^verbatim>\<open>inflation_rate\<close>, the parsed savings rate unchanged under
  \<^verbatim>\<open>monthly_savings_rate\<close>, and every other input under its own key with the value
  read from the form: the parsed number for the five amounts, the selected string for
  \<^verbatim>\<open>risk_tolerance\<close> and \<^verbatim>\<open>scenario\<close>.
\<close>

theorem payload_conversion:
  assumes "parseFloat (input_value w ''investmentGrowth'') = Fin g"
      and "parseFloat (input_value w ''inflationRate'') = Fin i"
  shows "payload w =
     [(''monthly_income'', PNum (parseFloat (input_value w ''monthlyIncome''))),
      (''monthly_expenses'', PNum (parseFloat (input_value w ''monthlyExpenses''))),
      (''current_savings'', PNum (parseFloat (input_value w ''currentSavings''))),
      (''current_investments'', PNum (parseFloat (input_value w ''currentInvestments''))),
      (''goal_cost'', PNum (parseFloat (input_value w ''goalCost''))),
      (''investment_growth_rate'', PNum (Fin ((g / 100) / 12))),
      (''inflation_rate'', PNum (Fin ((i / 100) / 12))),
      (''monthly_savings_rate'', PNum (parseFloat (input_value w ''savingsRate''))),
      (''risk_tolerance'', PStr (input_value w ''riskTolerance'')),
      (''scenario'', PStr (input_value w ''scenario''))]"
  using assms by (simp add: payload_def Let_def)

text \<open>The end-to-end scenario: growth 7 and inflation 3 become 7/1200 and 1/400.\<close>

theorem payload_conversion_witness:
  "parseFloat (input_value example_page ''investmentGrowth'') = Fin 7 \<and>
   parseFloat (input_value example_page ''inflationRate'') = Fin 3 \<and>
   payload example_page =
     [(''monthly_income'', PNum (Fin 5000)),
      (''monthly_expenses'', PNum (Fin 3000)),
      (''current_savings'', PNum (Fin 10000)),
      (''current_investments'', PNum (Fin 20000)),
      (''goal_cost'', PNum (Fin 50000)),
      (''investment_growth_rate'', PNum (Fin (7 / 1200))),
      (''inflation_rate'', PNum (Fin (1 / 400))),
      (''monthly_savings_rate'', PNum (Fin (3 / 10))),
      (''risk_tolerance'', PStr ''moderate''),
      (''scenario'', PStr ''job_loss'')]"
  using payload_conversion [OF example_growth example_inflation]
    example_growth example_inflation
  by (simp add: example_page_def example_inputs_def parse_defs)

section \<open>Failure and the submit button\<close>

text \<open>
  C2. A run whose request is rejected at the network, comes back with a status that is
  not a success status, or comes back with a body that does not decode, ends in one and
  the same way: the page is the page before the run with the one request added to the
  calls of \<^verbatim>\<open>fetch\<close> (no second attempt), one error added to the console, the one
  notification added to the alerts and the button idle. Nothing else has changed: the
  summary elements, the two lists, \<^verbatim>\<open>projectionChart\<close> and every chart instance are as
  they were.
\<close>

theorem failure_path:
  assumes "simulation_failure (net (simulate_request (payload w)))"
  shows "\<exists>e. runFullSimulation net w =
           w\<lparr>submitBtn := idle_button,
             fetch := fetch w @ [simulate_request (payload w)],
             console_error := console_error w @ [e],
             alert := alert w @ [failure_notice]\<rparr>"
proof -
  from try_failure [OF assms] obtain e where
    "try_block (net (simulate_request (payload w))) (runFullSimulation_send w) =
       (Some e, runFullSimulation_send w)" by blast
  then have "runFullSimulation net w =
           w\<lparr>submitBtn := idle_button,
             fetch := fetch w @ [simulate_request (payload w)],
             console_error := console_error w @ [e],
             alert := alert w @ [failure_notice]\<rparr>"
    by (simp add: runFullSimulation_def runFullSimulation_settle_def Let_def
        finally_eq catch_eq send_eq)
  then show ?thesis ..
qed

text \<open>The end-to-end failure scenario: the service answers with status 500.\<close>

theorem failure_path_witness:
  "simulation_failure (Response 500 (Parsed example_result)) \<and>
   alert (runFullSimulation (\<lambda>q. Response 500 (Parsed example_result)) example_page) =
     [failure_notice] \<and>
   length (console_error
     (runFullSimulation (\<lambda>q. Response 500 (Parsed example_result)) example_page)) = 1 \<and>
   length (fetch
     (runFullSimulation (\<lambda>q. Response 500 (Parsed example_result)) example_page)) = 1 \<and>
   submitBtn (runFullSimulation (\<lambda>q. Response 500 (Parsed example_result)) example_page) =
     idle_button \<and>
   charts (runFullSimulation (\<lambda>q. Response 500 (Parsed example_result)) example_page) = [] \<and>
   baseNetWorth (runFullSimulation (\<lambda>q. Response 500 (Parsed example_result)) example_page) = []"
proof -
  have f: "simulation_failure (Response 500 (Parsed example_result))"
    by (simp add: simulation_failure_def response_ok_def)
  from failure_path [of "\<lambda>q. Response 500 (Parsed example_result)" example_page] f
  obtain e where
    "runFullSimulation (\<lambda>q. Response 500 (Parsed example_result)) example_page =
       example_page\<lparr>submitBtn := idle_button,
         fetch := fetch example_page @ [simulate_request (payload example_page)],
         console_error := console_error example_page @ [e],
         alert := alert example_page @ [failure_notice]\<rparr>" by blast
  then show ?thesis using f by (simp add: example_page_def)
qed

text \<open>
  C3. From the moment the request is issued the button is disabled and carries the busy
  label, which differs from the idle label. However the request settles (rejected, any
  status, a body that does not decode, a response that makes rendering throw, or a
  response that renders) the run leaves the button enabled with the idle label. The
  idle label is the constant the code writes: a button that had it before the run is
  after the run exactly what it was.
\<close>

theorem button_restored:
  "submitBtn (runFullSimulation_send w) = \<lparr>disabled = True, innerHTML = busy_label\<rparr> \<and>
   busy_label \<noteq> idle_label \<and>
   submitBtn (runFullSimulation_settle r w') = \<lparr>disabled = False, innerHTML = idle_label\<rparr> \<and>
   submitBtn (runFullSimulation net w) = \<lparr>disabled = False, innerHTML = idle_label\<rparr> \<and>
   (submitBtn w = \<lparr>disabled = False, innerHTML = idle_label\<rparr> \<longrightarrow>
      submitBtn (runFullSimulation net w) = submitBtn w)"
proof -
  have settle:
    "submitBtn (runFullSimulation_settle r' w'') = \<lparr>disabled = False, innerHTML = idle_label\<rparr>"
    for r' w''
    by (simp add: runFullSimulation_settle_def finally_eq idle_button_def
        split: prod.splits option.splits)
  have "busy_label \<noteq> idle_label" by (simp add: busy_label_def idle_label_def)
  then show ?thesis using settle by (simp add: send_eq runFullSimulation_def Let_def)
qed

text \<open>A run in which rendering throws, on a page whose button starts idle.\<close>

theorem button_restored_witness:
  "submitBtn example_page = \<lparr>disabled = False, innerHTML = idle_label\<rparr> \<and>
   submitBtn (runFullSimulation_send example_page) =
     \<lparr>disabled = True, innerHTML = busy_label\<rparr> \<and>
   submitBtn (runFullSimulation (\<lambda>q. Response 200 (Parsed result_without_scenario))
     example_page) = submitBtn example_page"
  using button_restored [of example_page Rejected example_page
      "\<lambda>q. Response 200 (Parsed result_without_scenario)"]
  by (simp add: example_page_def)

section \<open>Rendering a result\<close>

text \<open>
  C4. When \<^verbatim>\<open>base\<close> and \<^verbatim>\<open>scenario\<close> are there with their lists, the children of the
  risk container after \<^verbatim>\<open>updateUI\<close> are one element for each string of
  \<^verbatim>\<open>base.risks\<close> followed by \<^verbatim>\<open>scenario.risks\<close>, in that order, nothing dropped or
  moved; when that merged list is empty the children are the one placeholder element.
  The same holds of the insight container and the two lists of insights.
\<close>

theorem merged_lists:
  assumes "base d = Some b" and "scenario d = Some s"
      and "risks b = Some rb" and "risks s = Some rs"
      and "insights b = Some ib" and "insights s = Some is"
  shows "riskAlerts (snd (updateUI d w)) =
           (if rb @ rs = [] then [item ''placeholder'' ''No critical risks detected'']
            else map (item ''risk-item'') (rb @ rs)) \<and>
         keyInsights (snd (updateUI d w)) =
           (if ib @ is = [] then [item ''placeholder'' ''Run simulation to see insights'']
            else map (item ''insight-item'') (ib @ is))"
  using assms
  by (simp add: updateUI_def Let_def frame fill_list_eq del: append_is_Nil_conv)

text \<open>
  The example result: one risk of the base run, then two of the scenario run, of which
  the second repeats the first of all; one insight.
\<close>

theorem merged_lists_witness:
  "riskAlerts (snd (updateUI example_result example_page)) =
     [item ''risk-item'' ''Low emergency fund'',
      item ''risk-item'' ''Income gap during job loss'',
      item ''risk-item'' ''Low emergency fund''] \<and>
   keyInsights (snd (updateUI example_result example_page)) =
     [item ''insight-item'' ''Savings rate is healthy'']"
  using merged_lists [of example_result example_base example_scenario
      "[''Low emergency fund'']" "[''Income gap during job loss'', ''Low emergency fund'']"
      "[''Savings rate is healthy'']" "[]" example_page]
  by (simp add: example_result_def example_base_def example_scenario_def)

text \<open>
  C5. When both final net worths are there, binary64 values \<open>x\<close> for \<^verbatim>\<open>base\<close> and \<open>y\<close>
  for \<^verbatim>\<open>scenario\<close>: if \<open>y \<ge> x\<close> the impact element shows a plus sign in front and has
  the good colour, if \<open>y < x\<close> it shows a minus sign in front and has the bad colour.
  Behind the sign stands what the formatter makes of the absolute value of the
  difference the script computes, which is \<open>y - x\<close> rounded to binary64: a dollar sign
  and the grouped digits of that magnitude rounded to an integer, with no fraction digits
  and no sign of its own (the infinity sign, should the difference overflow).
\<close>

theorem impact_sign:
  assumes "base d = Some b" and "scenario d = Some s"
      and "final_net_worth b = Some x" and "final_net_worth s = Some y"
      and "binary64 x" and "binary64 y"
  shows "textContent (impactElement (snd (updateUI d w))) =
           (if x \<le> y then ''+'' else ''-'') @
             formatter_format (Math_abs (jsub (Fin y) (Fin x))) \<and>
         color (impactElement (snd (updateUI d w))) =
           (if x \<le> y then ''#10b981'' else ''#ef4444'') \<and>
         jsub (Fin y) (Fin x) = round64 (y - x) \<and>
         formatter_format (Math_abs (jsub (Fin y) (Fin x))) =
           (case round64 (y - x) of
              Fin r \<Rightarrow> ''$'' @ group3 (digits (nat \<lfloor>\<bar>r\<bar> + 1 / 2\<rfloor>))
            | NaN \<Rightarrow> ''$NaN''
            | PosInf \<Rightarrow> ''$'' @ infinity_sign
            | NegInf \<Rightarrow> ''$'' @ infinity_sign)"
proof -
  have sign: "jge (jsub (Fin y) (Fin x)) (Fin 0) \<longleftrightarrow> x \<le> y"
    using difference_sign [OF assms(5,6)] by simp
  have shape: "formatter_format (Math_abs v) =
      (case v of
         Fin r \<Rightarrow> ''$'' @ group3 (digits (nat \<lfloor>\<bar>r\<bar> + 1 / 2\<rfloor>))
       | NaN \<Rightarrow> ''$NaN''
       | PosInf \<Rightarrow> ''$'' @ infinity_sign
       | NegInf \<Rightarrow> ''$'' @ infinity_sign)" for v
    by (cases v) simp_all
  have "impactElement (snd (updateUI d w)) =
      impactElement (show_impact b s (show_base b w))"
    using assms(1,2) by (rule impactElement_updateUI)
  then show ?thesis
    using assms(3,4) sign shape [of "jsub (Fin y) (Fin x)"]
    by (simp add: show_impact_def Let_def del: formatter_format.simps)
qed

text \<open>
  The example result, whose scenario ends 69,999.5 below the base case, and the result
  in which the scenario ends above it by a difference that rounding moves onto a tie.
\<close>

theorem impact_sign_witness:
  "textContent (impactElement (snd (updateUI example_result example_page))) = ''-$70,000'' \<and>
   color (impactElement (snd (updateUI example_result example_page))) = ''#ef4444'' \<and>
   textContent (impactElement (snd (updateUI rounding_result example_page))) = ''+$99,001'' \<and>
   color (impactElement (snd (updateUI rounding_result example_page))) = ''#10b981''"
proof -
  have 1: "base example_result = Some example_base"
    and 2: "scenario example_result = Some example_scenario"
    and 3: "final_net_worth example_base = Some 250000"
    and 4: "final_net_worth example_scenario = Some (360001 / 2)"
    by (simp_all add: example_result_def example_base_def example_scenario_def)
  have d: "(360001 / 2 - 250000 :: rat) = - (139999 / 2)" by simp
  note a = impact_sign [OF 1 2 3 4 binary64_example_base binary64_example_scenario,
      of example_page]
  have 5: "base rounding_result =
        Some (example_base\<lparr>final_net_worth := Some (4398926120406221 / 4398046511104)\<rparr>)"
    and 6: "scenario rounding_result =
        Some (example_scenario\<lparr>final_net_worth := Some (6871995777233715 / 68719476736)\<rparr>)"
    by (simp_all add: rounding_result_def)
  note b = impact_sign [OF 5 6 _ _ binary64_rounding_base binary64_rounding_scenario,
      of example_page]
  from a have "textContent (impactElement (snd (updateUI example_result example_page))) =
      ''-$70,000'' \<and>
    color (impactElement (snd (updateUI example_result example_page))) = ''#ef4444''"
    by (simp only: d jsub.simps round64_example_impact Math_abs.simps)
      (simp add: format_example_impact del: formatter_format.simps)
  moreover from b have "textContent (impactElement (snd (updateUI rounding_result example_page))) =
      ''+$99,001'' \<and>
    color (impactElement (snd (updateUI rounding_result example_page))) = ''#10b981''"
    by (simp only: jsub.simps round64_rounding_impact Math_abs.simps)
      (simp add: format_rounding_impact del: formatter_format.simps)
  ultimately show ?thesis by simp
qed

text \<open>
  C6. When \<^verbatim>\<open>base\<close> is there and its \<^verbatim>\<open>goal_1_month\<close> is \<^verbatim>\<open>null\<close>, the goal-time
  element shows the fixed text \<^verbatim>\<open>Not achieved\<close>; when it is an integer \<open>n\<close>, the
  element shows \<open>n\<close> in decimal followed by \<^verbatim>\<open>months\<close>. A \<^verbatim>\<open>goal_1_month\<close> that is
  missing is neither of the two cases; the example after the next one shows it.
\<close>

theorem goal_time:
  assumes "base d = Some b"
  shows "(goal_1_month b = Null \<longrightarrow> goalTime (snd (updateUI d w)) = ''Not achieved'') \<and>
         (\<forall>n. goal_1_month b = Month n \<longrightarrow>
            goalTime (snd (updateUI d w)) = ToString (Month n) @ '' months'')"
  using assms
  by (simp add: goalTime_updateUI show_base_def Let_def del: ToString.simps)

text \<open>Month 14 in the example result; \<^verbatim>\<open>null\<close> when the scenario run stands for the base.\<close>

theorem goal_time_witness:
  "goalTime (snd (updateUI example_result example_page)) = ''14 months'' \<and>
   goalTime (snd (updateUI (example_result\<lparr>base := Some example_scenario\<rparr>) example_page)) =
     ''Not achieved''"
  using goal_time [of example_result example_base example_page]
    goal_time [of "example_result\<lparr>base := Some example_scenario\<rparr>" example_scenario
      example_page]
  by (simp add: example_result_def example_base_def example_scenario_def ToString_example
      del: ToString.simps)

text \<open>
  A \<^verbatim>\<open>base\<close> without the key \<^verbatim>\<open>goal_1_month\<close>: \<^verbatim>\<open>undefined !== null\<close> holds, and the
  element shows \<^verbatim>\<open>undefined months\<close>, not the fixed text.
\<close>

theorem goal_absent_counterexample:
  "base result_without_goal = Some (example_base\<lparr>goal_1_month := Undefined\<rparr>) \<and>
   goalTime (snd (updateUI result_without_goal example_page)) = ''undefined months'' \<and>
   goalTime (snd (updateUI result_without_goal example_page)) \<noteq> ''Not achieved''"
  by (simp add: goalTime_updateUI show_base_def result_without_goal_def example_result_def)

section \<open>Inputs that are no numbers, responses that lack a part\<close>

text \<open>
  C7, as the code has it. There is no validation: whatever the form holds, the run issues
  exactly one request, whose body is the payload built from the form. Each of the eight
  numeric fields whose input does not parse is in the payload as \<open>NaN\<close>, the two rates
  too, since \<open>NaN\<close> divided is \<open>NaN\<close>; and each numeric field whose parsed value is not
  finite is written \<^verbatim>\<open>null\<close> in the body.
\<close>

theorem request_always_sent:
  "fetch (runFullSimulation_send w) = fetch w @ [simulate_request (payload w)] \<and>
   fetch (runFullSimulation net w) = fetch w @ [simulate_request (payload w)] \<and>
   body (simulate_request (payload w)) = JObject (map (\<lambda>(k, v). (k, json_of v)) (payload w)) \<and>
   map_of (payload w) ''monthly_income'' =
     Some (PNum (parseFloat (input_value w ''monthlyIncome''))) \<and>
   json_of (PNum NaN) = JNull \<and>
   (\<forall>(key, id) \<in> set numeric_fields.
      (parseFloat (input_value w id) = NaN \<longrightarrow>
         map_of (payload w) key = Some (PNum NaN)) \<and>
      ((\<forall>x. parseFloat (input_value w id) \<noteq> Fin x) \<longrightarrow>
         map_of (body_fields (body (simulate_request (payload w)))) key = Some JNull))"
proof -
  have sent: "fetch (runFullSimulation_send w) = fetch w @ [simulate_request (payload w)]"
    "fetch (runFullSimulation net w) = fetch w @ [simulate_request (payload w)]"
    by (simp_all add: runFullSimulation_def Let_def fetch_settle send_eq)
  have body: "body (simulate_request (payload w)) =
      JObject (map (\<lambda>(k, v). (k, json_of v)) (payload w))"
    by (simp add: simulate_request_def JSON_stringify_def)
  have income: "map_of (payload w) ''monthly_income'' =
      Some (PNum (parseFloat (input_value w ''monthlyIncome'')))"
    by (simp add: payload_def Let_def)
  have fields: "\<forall>(key, id) \<in> set numeric_fields.
      (parseFloat (input_value w id) = NaN \<longrightarrow>
         map_of (payload w) key = Some (PNum NaN)) \<and>
      ((\<forall>x. parseFloat (input_value w id) \<noteq> Fin x) \<longrightarrow>
         map_of (body_fields (body (simulate_request (payload w)))) key = Some JNull)"
    by (simp add: numeric_fields_def simulate_request_def JSON_stringify_def payload_def
        Let_def json_of_nonfinite rate_nonfinite)
  from sent body income fields show ?thesis by simp
qed

text \<open>A growth rate of \<^verbatim>\<open>seven\<close>: \<open>NaN\<close> in the payload, \<^verbatim>\<open>null\<close> in the body.\<close>

theorem request_always_sent_witness:
  "parseFloat (input_value invalid_rate_page ''investmentGrowth'') = NaN \<and>
   map_of (payload invalid_rate_page) ''investment_growth_rate'' = Some (PNum NaN) \<and>
   map_of (body_fields (body (simulate_request (payload invalid_rate_page))))
     ''investment_growth_rate'' = Some JNull \<and>
   length (fetch (runFullSimulation (\<lambda>q. Rejected) invalid_rate_page)) = 1"
proof -
  note t = request_always_sent [of invalid_rate_page "\<lambda>q. Rejected"]
  have m: "(''investment_growth_rate'', ''investmentGrowth'') \<in> set numeric_fields"
    by (simp add: numeric_fields_def)
  from t have "\<forall>(key, id) \<in> set numeric_fields.
      (parseFloat (input_value invalid_rate_page id) = NaN \<longrightarrow>
         map_of (payload invalid_rate_page) key = Some (PNum NaN)) \<and>
      ((\<forall>x. parseFloat (input_value invalid_rate_page id) \<noteq> Fin x) \<longrightarrow>
         map_of (body_fields (body (simulate_request (payload invalid_rate_page)))) key =
           Some JNull)"
    by blast
  from bspec [OF this m] growth_invalid
  have "map_of (payload invalid_rate_page) ''investment_growth_rate'' = Some (PNum NaN)"
    and "map_of (body_fields (body (simulate_request (payload invalid_rate_page))))
      ''investment_growth_rate'' = Some JNull"
    by simp_all
  moreover from t
  have "fetch (runFullSimulation (\<lambda>q. Rejected) invalid_rate_page) =
      fetch invalid_rate_page @ [simulate_request (payload invalid_rate_page)]"
    by blast
  then have "length (fetch (runFullSimulation (\<lambda>q. Rejected) invalid_rate_page)) = 1"
    by (simp add: invalid_rate_page_def example_page_def)
  ultimately show ?thesis using growth_invalid by simp
qed

text \<open>
  A monthly income of \<^verbatim>\<open>abc\<close>: the request is issued all the same, with \<^verbatim>\<open>null\<close> under
  \<^verbatim>\<open>monthly_income\<close>.
\<close>

theorem no_validation_counterexample:
  "parseFloat (input_value invalid_page ''monthlyIncome'') = NaN \<and>
   fetch invalid_page = [] \<and>
   fetch (runFullSimulation_send invalid_page) =
     [\<lparr>url = ''/simulate'', http_method = ''POST'',
       headers = [(''Content-Type'', ''application/json'')],
       body = JObject
         [(''monthly_income'', JNull),
          (''monthly_expenses'', JNumber 3000),
          (''current_savings'', JNumber 10000),
          (''current_investments'', JNumber 20000),
          (''goal_cost'', JNumber 50000),
          (''investment_growth_rate'', JNumber (7 / 1200)),
          (''inflation_rate'', JNumber (1 / 400)),
          (''monthly_savings_rate'', JNumber (3 / 10)),
          (''risk_tolerance'', JString ''moderate''),
          (''scenario'', JString ''job_loss'')]\<rparr>]"
  by (simp add: send_eq simulate_request_def JSON_stringify_def payload_def Let_def
      invalid_page_def example_page_def example_inputs_def parse_defs)

text \<open>
  C8, as the code has it. There is no check of the response before it is rendered. When
  the status is a success status and the decoded response lacks one of the four runs, or
  \<^verbatim>\<open>base\<close> or \<^verbatim>\<open>scenario\<close> lacks one of its two lists, a statement of \<^verbatim>\<open>updateUI\<close>
  throws a \<^verbatim>\<open>TypeError\<close>, which takes the path of every other failure: it is logged,
  the one notification is shown, the button is idle again. No chart is constructed or
  destroyed. When it is \<^verbatim>\<open>base\<close> that is missing, nothing at all has been rendered.
\<close>

theorem malformed_response:
  assumes "response_ok status"
      and "missing_run d \<or> lacks_list (base d) \<or> lacks_list (scenario d)"
  shows "(\<exists>m. console_error (runFullSimulation_settle (Response status (Parsed d)) w) =
                 console_error w @ [TypeError m]) \<and>
         alert (runFullSimulation_settle (Response status (Parsed d)) w) =
           alert w @ [failure_notice] \<and>
         submitBtn (runFullSimulation_settle (Response status (Parsed d)) w) = idle_button \<and>
         charts (runFullSimulation_settle (Response status (Parsed d)) w) = charts w \<and>
         projectionChart (runFullSimulation_settle (Response status (Parsed d)) w) =
           projectionChart w \<and>
         (base d = None \<longrightarrow>
            runFullSimulation_settle (Response status (Parsed d)) w =
              w\<lparr>console_error := console_error w @ [TypeError ''data.base is undefined''],
                alert := alert w @ [failure_notice],
                submitBtn := idle_button\<rparr>)"
proof -
  from updateUI_missing [OF assms(2)] obtain m where m: "fst (updateUI d w) = Some (TypeError m)"
    by blast
  then have "fst (updateUI d w) \<noteq> None" by simp
  from updateUI_thrown_chart [OF this] m show ?thesis
    by (auto simp: settle_parsed [OF assms(1)] updateUI_no_base)
qed

text \<open>The example response without its scenario run, with status 200.\<close>

theorem malformed_response_witness:
  "response_ok 200 \<and> missing_run result_without_scenario \<and>
   alert (runFullSimulation_settle (Response 200 (Parsed result_without_scenario))
     example_page) = [failure_notice] \<and>
   charts (runFullSimulation_settle (Response 200 (Parsed result_without_scenario))
     example_page) = [] \<and>
   submitBtn (runFullSimulation_settle (Response 200 (Parsed result_without_scenario))
     example_page) = idle_button"
proof -
  have mr: "missing_run result_without_scenario"
    by (simp add: missing_run_def result_without_scenario_def)
  then have "missing_run result_without_scenario \<or> lacks_list (base result_without_scenario) \<or>
    lacks_list (scenario result_without_scenario)" by simp
  from malformed_response [OF ok_200 this, of example_page] ok_200 mr show ?thesis
    by (simp add: example_page_def)
qed

text \<open>
  Two responses that are rendered all the same. Without the scenario run, the base net
  worth and the goal time are on the page when the notification is shown: the page is
  rendered in part. Without \<^verbatim>\<open>final_net_worth\<close> in \<^verbatim>\<open>base\<close>, nothing throws: no notification is
  shown and the page is rendered in full, with \<^verbatim>\<open>$NaN\<close> for the missing figure.
\<close>

theorem partial_render_counterexample:
  "missing_run result_without_scenario \<and>
   baseNetWorth example_page = [] \<and>
   goalTime example_page = [] \<and>
   baseNetWorth (runFullSimulation_settle (Response 200 (Parsed result_without_scenario))
     example_page) = ''$250,000'' \<and>
   goalTime (runFullSimulation_settle (Response 200 (Parsed result_without_scenario))
     example_page) = ''14 months'' \<and>
   alert (runFullSimulation_settle (Response 200 (Parsed result_without_scenario))
     example_page) = [failure_notice] \<and>
   final_net_worth (the (base result_without_net_worth)) = None \<and>
   alert (runFullSimulation_settle (Response 200 (Parsed result_without_net_worth))
     example_page) = [] \<and>
   baseNetWorth (runFullSimulation_settle (Response 200 (Parsed result_without_net_worth))
     example_page) = ''$NaN'' \<and>
   projectionChart (runFullSimulation_settle (Response 200 (Parsed result_without_net_worth))
     example_page) = Some 0"
  by (simp add: settle_parsed [OF ok_200] updateUI_without_scenario
      updateUI_without_net_worth updateUI_frame)
    (simp add: missing_run_def result_without_scenario_def result_without_net_worth_def
      example_result_def example_page_def)

section \<open>The chart\<close>

text \<open>
  C9. Start from a page on which the live chart instances are exactly the one
  \<^verbatim>\<open>projectionChart\<close> refers to (none on a page just loaded) and render any sequence of
  one or more responses that have the four runs. Afterwards exactly one chart instance is
  live, the one constructed last, and \<^verbatim>\<open>projectionChart\<close> refers to it; each render
  has constructed one instance, and the live one holds the data of the last response.
  Rendering the last response once more leaves again exactly one live instance, the new
  one, with the instance that was live before it destroyed, and the series it shows are
  the same as before.
\<close>

theorem chart_singleton:
  assumes "chart_inv w" and "ds \<noteq> []" and "\<forall>d\<in>set ds. four_runs d"
  shows "live_charts (renders ds w) = [length (charts w) + length ds - 1] \<and>
         projectionChart (renders ds w) = Some (length (charts w) + length ds - 1) \<and>
         length (charts (renders ds w)) = length (charts w) + length ds \<and>
         chartData (last ds) =
           Inr (config (charts (renders ds w) ! (length (charts w) + length ds - 1))) \<and>
         live_charts (renders (ds @ [last ds]) w) = [length (charts w) + length ds] \<and>
         destroyed (charts (renders (ds @ [last ds]) w) ! (length (charts w) + length ds - 1)) \<and>
         series_data (renders (ds @ [last ds]) w) = series_data (renders ds w)"
proof -
  from assms(2) obtain ds' d where ds: "ds = ds' @ [d]"
    by (metis rev_exhaust)
  with assms(3) have pre: "\<forall>x\<in>set ds'. four_runs x" and d: "four_runs d" by simp_all
  from d obtain cd where cd: "chartData d = Inr cd" using four_runs_chartData by blast
  have inv': "chart_inv (renders ds' w)"
    and len': "length (charts (renders ds' w)) = length (charts w) + length ds'"
    using renders_inv [OF assms(1) pre] by simp_all
  have inv: "chart_inv (renders ds w)"
    and len: "length (charts (renders ds w)) = length (charts w) + length ds"
    using renders_inv [OF assms(1) assms(3)] by simp_all
  note one = updateChart_step [OF inv' cd]
  note two = updateChart_step [OF inv cd]
  have r: "renders ds w = snd (updateChart d (renders ds' w))"
    by (simp add: ds renders_snoc)
  have ld: "last ds = d" by (simp add: ds)
  have r2: "renders (ds @ [last ds]) w = snd (updateChart d (renders ds w))"
    using renders_snoc [of ds "last ds" w] by (simp only: ld)
  define k where "k = length (charts (renders ds' w))"
  have n: "length (charts w) + length ds - 1 = k" and n1: "length (charts w) + length ds = Suc k"
    by (simp_all add: k_def len' ds)
  have p: "projectionChart (renders ds w) = Some k"
    using one(3) by (simp add: r k_def)
  have "live_charts (renders ds w) = [k]"
    using one(2) by (simp add: r k_def)
  moreover note p
  moreover have "length (charts (renders ds w)) = Suc k"
    using len n1 by simp
  moreover have "chartData (last ds) = Inr (config (charts (renders ds w) ! k))"
    using one(5) cd by (simp add: r ld k_def)
  moreover have "live_charts (renders (ds @ [last ds]) w) = [Suc k]"
    using two(2) len n1 by (simp add: r2)
  moreover have "destroyed (charts (renders (ds @ [last ds]) w) ! k)"
    using two(7) p by (simp add: r2)
  moreover have "series_data (renders (ds @ [last ds]) w) = series_data (renders ds w)"
    using series_after_render [OF inv' cd] series_after_render [OF inv cd] by (simp add: r r2)
  ultimately show ?thesis
    unfolding n n1 by simp
qed

text \<open>The example result rendered twice, and a third time, on a page just loaded.\<close>

theorem chart_singleton_witness:
  "chart_inv example_page \<and> four_runs example_result \<and>
   live_charts (renders [example_result, example_result] example_page) = [1] \<and>
   projectionChart (renders [example_result, example_result] example_page) = Some 1 \<and>
   length (charts (renders [example_result, example_result] example_page)) = 2 \<and>
   live_charts (renders [example_result, example_result, example_result] example_page) = [2] \<and>
   series_data (renders [example_result, example_result, example_result] example_page) =
     series_data (renders [example_result, example_result] example_page)"
  using chart_singleton [of example_page "[example_result, example_result]"]
    chart_inv_example four_runs_example
  by (simp add: example_page_def)

text \<open>
  C10. For a response with the four runs, \<^verbatim>\<open>updateChart\<close> throws nothing and constructs
  a chart whose labels are the months 1 to 120, whatever the lengths of the histories,
  and whose datasets are four, in the order base, best, worst, scenario, each with its
  fixed label and colours and with the history of its run as data.
\<close>

theorem chart_layout:
  assumes "base d = Some b" and "best d = Some be"
      and "worst d = Some wo" and "scenario d = Some s"
  shows "\<exists>cd. chartData d = Inr cd \<and>
           fst (updateChart d w) = None \<and>
           config (last (charts (snd (updateChart d w)))) = cd \<and>
           labels cd = [1..<121] \<and> length (labels cd) = 120 \<and>
           map label (datasets cd) =
             [''Base Case'', ''Best Case'', ''Worst Case'', ''What-If Scenario''] \<and>
           map borderColor (datasets cd) = [''#007bff'', ''#10b981'', ''#ef4444'', ''#f59e0b''] \<and>
           map backgroundColor (datasets cd) =
             [''rgba(0, 123, 255, 0.1)'', ''rgba(16, 185, 129, 0.1)'',
              ''rgba(239, 68, 68, 0.1)'', ''rgba(245, 158, 11, 0.1)''] \<and>
           map data (datasets cd) = [history b, history be, history wo, history s]"
  using assms
  by (simp add: chartData_def updateChart_def Let_def months_eq split: option.splits)

text \<open>The example result: three months of history in each run, 120 labels all the same.\<close>

theorem chart_layout_witness:
  "labels (config (last (charts (snd (updateChart example_result example_page))))) =
     [1..<121] \<and>
   map label
     (datasets (config (last (charts (snd (updateChart example_result example_page)))))) =
     [''Base Case'', ''Best Case'', ''Worst Case'', ''What-If Scenario''] \<and>
   map data
     (datasets (config (last (charts (snd (updateChart example_result example_page)))))) =
     [Some [30000, 31200, 32450], Some [30000, 31200, 32450], Some [30000, 31200, 32450],
      Some [30000, 27000, 24100]]"
  using chart_layout [of example_result example_base
      "example_base\<lparr>final_net_worth := Some 300000\<rparr>"
      "example_base\<lparr>final_net_worth := Some 150000\<rparr>" example_scenario example_page]
  by (auto simp: example_result_def example_base_def example_scenario_def)

end
